theory Spec2Isabelle
  imports Complex_Main "HOL-Library.Word" "HOL-Library.Sublist"
begin

section \<open>JavaScript values\<close>

text \<open>
  The values that reach the client as parsed JSON. Numbers are modelled as reals (JSON
  has no NaN and no infinities). Strict equality \<open>===\<close> on these values is HOL
  equality.
\<close>

datatype jsval = JUndefined | JNull | JBool bool | JNum real | JStr string

text \<open>The truthiness test of \<open>if (v)\<close>, \<open>v && ...\<close> and \<open>v || ...\<close>.\<close>

fun truthy :: "jsval \<Rightarrow> bool" where
  "truthy JUndefined = False"
| "truthy JNull = False"
| "truthy (JBool b) = b"
| "truthy (JNum n) = (n \<noteq> 0)"
| "truthy (JStr s) = (s \<noteq> [])"

text \<open>A parsed JSON object, and the property read \<open>obj.key\<close> (undefined when absent).\<close>

type_synonym jsobj = "(string \<times> jsval) list"

definition getProp :: "jsobj \<Rightarrow> string \<Rightarrow> jsval" where
  "getProp obj k = (case map_of obj k of None \<Rightarrow> JUndefined | Some v \<Rightarrow> v)"

section \<open>Audio transport codec (VoiceContext.js)\<close>

type_synonym int16 = "16 word"

text \<open>
  Storing a number into an \<open>Int16Array\<close> element: the fraction is dropped (towards
  zero) and the integer is reduced modulo \<open>2^16\<close>.
\<close>

definition truncToZero :: "real \<Rightarrow> int" where
  "truncToZero r = (if r < 0 then \<lceil>r\<rceil> else \<lfloor>r\<rfloor>)"

definition toInt16 :: "real \<Rightarrow> int16" where
  "toInt16 r = word_of_int (truncToZero r)"

text \<open>
  The body of the capture loop:
  \<^verbatim>\<open>const s = Math.max(-1, Math.min(1, inputData[i]));
  pcm16[i] = s < 0 ? s * 0x8000 : s * 0x7FFF;\<close>
\<close>

definition clampSample :: "real \<Rightarrow> real" where
  "clampSample x = max (-1) (min 1 x)"

definition encodeSample :: "real \<Rightarrow> int16" where
  "encodeSample x =
     (let s = clampSample x in toInt16 (if s < 0 then s * 32768 else s * 32767))"

definition encodePCM16 :: "real list \<Rightarrow> int16 list" where
  "encodePCM16 inputData = map encodeSample inputData"

text \<open>
  The body of the playback loop:
  \<^verbatim>\<open>float32Array[i] = int16Array[i] / 32768.0;\<close>
\<close>

definition decodeSample :: "int16 \<Rightarrow> real" where
  "decodeSample v = real_of_int (sint v) / 32768"

definition decodePCM16 :: "int16 list \<Rightarrow> real list" where
  "decodePCM16 int16Array = map decodeSample int16Array"


section \<open>Cart (CartContext.js)\<close>

text \<open>
  A product object carries an \<open>id\<close> and further properties that the cart never
  inspects; a cart item is the product's properties plus a \<open>quantity\<close>.
\<close>

record 'a product =
  id' :: jsval
  details :: 'a

record 'a item = "'a product" +
  quantity :: int

text \<open>
  The updater that \<open>addToCart(product)\<close> passes to \<open>setItems\<close>:
  \<^verbatim>\<open>const existing = prev.find(item => item.id === product.id);
  if (existing) return prev.map(item => item.id === product.id
      ? { ...item, quantity: item.quantity + 1 } : item);
  return [...prev, { ...product, quantity: 1 }];\<close>
\<close>

definition addToCart :: "'a product \<Rightarrow> 'a item list \<Rightarrow> 'a item list" where
  "addToCart p prev =
     (case find (\<lambda>item. id' item = id' p) prev of
        Some existing \<Rightarrow>
          map (\<lambda>item. if id' item = id' p then item\<lparr>quantity := quantity item + 1\<rparr> else item) prev
      | None \<Rightarrow> prev @ [\<lparr>id' = id' p, details = details p, quantity = 1\<rparr>])"

section \<open>Voice provider state (VoiceContext.js)\<close>

datatype readyState = CONNECTING | OPEN | CLOSING | CLOSED

datatype ctxState = CtxSuspended | CtxRunning | CtxClosed

type_synonym frame = "int16 list"

text \<open>The object stored in \<open>pendingVoiceUpdateRef\<close>.\<close>

record 'a pending =
  pending_products :: "'a product list"
  pending_total :: jsval
  pending_filters :: jsobj

text \<open>
  The provider's React state, its refs, and what the browser holds for it. A ref to a
  callback or a node is modelled by whether it is non-null; \<open>wsRef\<close> holds the
  socket's \<open>readyState\<close>, \<open>audioContextRef\<close> the context's \<open>state\<close>,
  \<open>mediaStreamRef\<close> the \<open>enabled\<close> flag of the stream's audio track. The last
  block of fields records the browser side: how many sockets, microphone streams and
  audio contexts were created, the frames handed to \<open>send\<close>, the paths passed to
  \<open>navigate\<close>, the pending \<open>setTimeout\<close> callbacks, the \<open>alert\<close> count, the
  \<open>playNextAudio\<close> invocations parked at \<open>await audioContext.resume()\<close> (each
  with the frame it shifted), the sources started and not yet ended, and every frame a
  source was started for, in order.
\<close>

record 'a voice =
  isConnected :: bool
  isListening :: bool
  isProcessing :: bool
  isSpeaking :: bool
  isMuted :: bool
  userTranscript :: string
  assistantTranscript :: string
  lastProducts :: "'a product list"
  lastFilters :: jsobj
  voiceUpdateFlagRef :: bool
  pendingVoiceUpdateRef :: "'a pending option"
  onProductsUpdateRef :: bool
  onFiltersUpdateRef :: bool
  onProductDetailRef :: bool
  onCompareRef :: bool
  onAddToCartRef :: bool
  wsRef :: "readyState option"
  audioContextRef :: "ctxState option"
  mediaStreamRef :: "bool option"
  processorRef :: bool
  playbackQueueRef :: "frame list"
  isPlayingRef :: bool
  socketsOpened :: nat
  streamsAcquired :: nat
  contextsCreated :: nat
  sent :: "frame list"
  navigations :: "string list"
  timers :: nat
  alerts :: nat
  resuming :: "frame list"
  playing :: "frame list"
  rendered :: "frame list"

definition initialVoice :: "'a voice" where
  "initialVoice =
     \<lparr>isConnected = False, isListening = False, isProcessing = False, isSpeaking = False,
      isMuted = False, userTranscript = [], assistantTranscript = [], lastProducts = [],
      lastFilters = [], voiceUpdateFlagRef = False, pendingVoiceUpdateRef = None,
      onProductsUpdateRef = False, onFiltersUpdateRef = False, onProductDetailRef = False,
      onCompareRef = False, onAddToCartRef = False, wsRef = None, audioContextRef = None,
      mediaStreamRef = None, processorRef = False, playbackQueueRef = [],
      isPlayingRef = False, socketsOpened = 0, streamsAcquired = 0, contextsCreated = 0,
      sent = [], navigations = [], timers = 0, alerts = 0, resuming = [], playing = [],
      rendered = []\<rparr>"

subsection \<open>Playback queue\<close>

text \<open>
  \<open>playNextAudio\<close>. The parameter \<open>ok\<close> says for which frames the block that
  decodes the frame, builds the buffer and starts the source completes without throwing
  (the decoding itself is \<open>decodePCM16\<close>). When it throws, the \<open>catch\<close> branch
  lowers the guard and calls \<open>playNextAudio\<close> again, which is the recursion here.
  With no audio context the function returns after raising the guard and shifting the
  frame. With a suspended context it parks at \<open>await audioContext.resume()\<close>.
\<close>

function playNextAudio :: "(frame \<Rightarrow> bool) \<Rightarrow> 'a voice \<Rightarrow> 'a voice" where
  "playNextAudio ok s =
     (if isPlayingRef s \<or> playbackQueueRef s = [] then
        (if playbackQueueRef s = [] then s\<lparr>isSpeaking := False\<rparr> else s)
      else if audioContextRef s = None then
        s\<lparr>isPlayingRef := True, playbackQueueRef := tl (playbackQueueRef s)\<rparr>
      else if audioContextRef s = Some CtxSuspended then
        s\<lparr>isPlayingRef := True, playbackQueueRef := tl (playbackQueueRef s),
          resuming := resuming s @ [hd (playbackQueueRef s)]\<rparr>
      else if ok (hd (playbackQueueRef s)) then
        s\<lparr>isPlayingRef := True, playbackQueueRef := tl (playbackQueueRef s),
          playing := playing s @ [hd (playbackQueueRef s)],
          rendered := rendered s @ [hd (playbackQueueRef s)]\<rparr>
      else
        playNextAudio ok (s\<lparr>isPlayingRef := False, playbackQueueRef := tl (playbackQueueRef s)\<rparr>))"
  by pat_completeness auto
termination
  by (relation "measure (\<lambda>(ok, s). length (playbackQueueRef s))") auto

text \<open>
  The rest of a parked \<open>playNextAudio\<close> once \<open>resume()\<close> settles: on success the
  context is running and the frame is decoded and started; a rejection, or a frame that
  makes the block throw, goes to the \<open>catch\<close> branch.
\<close>

definition resumeSettled :: "(frame \<Rightarrow> bool) \<Rightarrow> bool \<Rightarrow> 'a voice \<Rightarrow> 'a voice" where
  "resumeSettled ok resolved s =
     (case resuming s of
        [] \<Rightarrow> s
      | audioData # rest \<Rightarrow>
          if resolved \<and> ok audioData then
            s\<lparr>resuming := rest,
              audioContextRef := map_option (\<lambda>_. CtxRunning) (audioContextRef s),
              playing := playing s @ [audioData], rendered := rendered s @ [audioData]\<rparr>
          else
            playNextAudio ok
              (s\<lparr>resuming := rest,
                 audioContextRef :=
                   (if resolved then map_option (\<lambda>_. CtxRunning) (audioContextRef s)
                    else audioContextRef s),
                 isPlayingRef := False\<rparr>))"

text \<open>\<open>source.onended\<close>, fired by a started source.\<close>

definition onended :: "(frame \<Rightarrow> bool) \<Rightarrow> 'a voice \<Rightarrow> 'a voice" where
  "onended ok s =
     (case playing s of
        [] \<Rightarrow> s
      | audioData # rest \<Rightarrow> playNextAudio ok (s\<lparr>playing := rest, isPlayingRef := False\<rparr>))"

text \<open>
  The binary branch of \<open>ws.onmessage\<close>, after \<open>await event.data.arrayBuffer()\<close>:
  \<^verbatim>\<open>playbackQueueRef.current.push(arrayBuffer); setIsSpeaking(true); playNextAudio();\<close>
\<close>

definition onmessageBlob :: "(frame \<Rightarrow> bool) \<Rightarrow> frame \<Rightarrow> 'a voice \<Rightarrow> 'a voice" where
  "onmessageBlob ok arrayBuffer s =
     playNextAudio ok (s\<lparr>playbackQueueRef := playbackQueueRef s @ [arrayBuffer], isSpeaking := True\<rparr>)"

text \<open>The \<open>clear_audio_queue\<close> case of \<open>handleWebSocketEvent\<close>.\<close>

definition clearAudioQueue :: "'a voice \<Rightarrow> 'a voice" where
  "clearAudioQueue s = s\<lparr>playbackQueueRef := [], isSpeaking := False\<rparr>"

text \<open>The events that drive the playback queue, and runs of them.\<close>

datatype pbEvent =
    Enqueue frame
  | ClearQueue
  | SourceEnded
  | ResumeSettled bool
  | ContextState ctxState

fun pbStep :: "(frame \<Rightarrow> bool) \<Rightarrow> 'a voice \<Rightarrow> pbEvent \<Rightarrow> 'a voice" where
  "pbStep ok s (Enqueue f) = onmessageBlob ok f s"
| "pbStep ok s ClearQueue = clearAudioQueue s"
| "pbStep ok s SourceEnded = onended ok s"
| "pbStep ok s (ResumeSettled resolved) = resumeSettled ok resolved s"
| "pbStep ok s (ContextState c) = s\<lparr>audioContextRef := map_option (\<lambda>_. c) (audioContextRef s)\<rparr>"

definition pbRun :: "(frame \<Rightarrow> bool) \<Rightarrow> pbEvent list \<Rightarrow> 'a voice \<Rightarrow> 'a voice" where
  "pbRun ok evs s = foldl (pbStep ok) s evs"


fun isEnqueue :: "pbEvent \<Rightarrow> bool" where
  "isEnqueue (Enqueue f) = True"
| "isEnqueue _ = False"

text \<open>A provider whose session has an audio context and whose playback is idle.\<close>

definition idleVoice :: "ctxState \<Rightarrow> 'a voice" where
  "idleVoice c = initialVoice\<lparr>audioContextRef := Some c\<rparr>"


subsection \<open>Session and channel\<close>

text \<open>
  \<open>startVoice\<close>. \<open>granted\<close> says whether \<open>getUserMedia\<close> resolves; when it
  rejects, the \<open>catch\<close> branch raises an alert and nothing else happens. \<open>c\<close> is
  the state in which the browser creates the playback context. The function has no
  guard: each call acquires a stream, creates a context and opens a socket, and
  overwrites the three refs.
\<close>

definition startVoice :: "bool \<Rightarrow> ctxState \<Rightarrow> 'a voice \<Rightarrow> 'a voice" where
  "startVoice granted c s =
     (if granted then
        s\<lparr>mediaStreamRef := Some True, streamsAcquired := streamsAcquired s + 1,
          audioContextRef := Some c, contextsCreated := contextsCreated s + 1,
          wsRef := Some CONNECTING, socketsOpened := socketsOpened s + 1\<rparr>
      else s\<lparr>alerts := alerts s + 1\<rparr>)"

text \<open>
  \<open>startAudioStreaming\<close> creates a capture context of its own and the script
  processor; \<open>ws.onopen\<close> calls it once the socket is open.
\<close>

definition startAudioStreaming :: "'a voice \<Rightarrow> 'a voice" where
  "startAudioStreaming s = s\<lparr>contextsCreated := contextsCreated s + 1, processorRef := True\<rparr>"

definition ws_onopen :: "'a voice \<Rightarrow> 'a voice" where
  "ws_onopen s =
     startAudioStreaming (s\<lparr>wsRef := map_option (\<lambda>_. OPEN) (wsRef s),
                            isConnected := True, isListening := True\<rparr>)"

definition cleanup :: "'a voice \<Rightarrow> 'a voice" where
  "cleanup s =
     s\<lparr>wsRef := None, mediaStreamRef := None, processorRef := False,
       audioContextRef := None, playbackQueueRef := []\<rparr>"

definition ws_onerror :: "'a voice \<Rightarrow> 'a voice" where
  "ws_onerror s = s\<lparr>isConnected := False\<rparr>"

definition ws_onclose :: "'a voice \<Rightarrow> 'a voice" where
  "ws_onclose s = cleanup (s\<lparr>isConnected := False, isListening := False\<rparr>)"

definition stopVoice :: "'a voice \<Rightarrow> 'a voice" where
  "stopVoice s =
     (cleanup s)\<lparr>isConnected := False, isListening := False, isSpeaking := False,
                 isProcessing := False, isMuted := False\<rparr>"

definition toggleVoice :: "bool \<Rightarrow> ctxState \<Rightarrow> 'a voice \<Rightarrow> 'a voice" where
  "toggleVoice granted c s = (if isConnected s then stopVoice s else startVoice granted c s)"

text \<open>
  \<open>toggleMute\<close>:
  \<^verbatim>\<open>audioTrack.enabled = !audioTrack.enabled; setIsMuted(!audioTrack.enabled);\<close>
\<close>

definition toggleMute :: "'a voice \<Rightarrow> 'a voice" where
  "toggleMute s =
     (case mediaStreamRef s of
        None \<Rightarrow> s
      | Some enabled \<Rightarrow> s\<lparr>mediaStreamRef := Some (\<not> enabled), isMuted := enabled\<rparr>)"

text \<open>
  \<open>WebSocket.send\<close> as the platform defines it: it throws while the socket is still
  connecting, hands the frame to the transport when the socket is open, and discards it
  when the socket is closing or closed.
\<close>

datatype jsError = InvalidStateError

definition ws_send :: "readyState \<Rightarrow> frame \<Rightarrow> 'a voice \<Rightarrow> jsError + 'a voice" where
  "ws_send rs f s =
     (case rs of
        CONNECTING \<Rightarrow> Inl InvalidStateError
      | OPEN \<Rightarrow> Inr (s\<lparr>sent := sent s @ [f]\<rparr>)
      | CLOSING \<Rightarrow> Inr s
      | CLOSED \<Rightarrow> Inr s)"

text \<open>
  \<open>processor.onaudioprocess\<close>: the capture buffer is encoded and sent only under
  \<^verbatim>\<open>if (wsRef.current?.readyState === WebSocket.OPEN)\<close>.
\<close>

definition onaudioprocess :: "real list \<Rightarrow> 'a voice \<Rightarrow> jsError + 'a voice" where
  "onaudioprocess inputData s =
     (case wsRef s of
        Some OPEN \<Rightarrow> ws_send OPEN (encodePCM16 inputData) s
      | _ \<Rightarrow> Inr s)"

subsection \<open>Voice update flag and pending update\<close>

definition isVoiceUpdateInProgress :: "'a voice \<Rightarrow> bool" where
  "isVoiceUpdateInProgress s = voiceUpdateFlagRef s"

text \<open>
  \<open>consumePendingVoiceData\<close> returns the slot's content (\<open>None\<close> for null) and the
  provider with the slot cleared.
\<close>

definition consumePendingVoiceData :: "'a voice \<Rightarrow> 'a pending option \<times> 'a voice" where
  "consumePendingVoiceData s = (pendingVoiceUpdateRef s, s\<lparr>pendingVoiceUpdateRef := None\<rparr>)"

text \<open>The callback that \<open>handleUIUpdate\<close> hands to \<open>setTimeout(..., 500)\<close>.\<close>

definition settleTimeout :: "'a voice \<Rightarrow> 'a voice" where
  "settleTimeout s =
     (if timers s = 0 then s else s\<lparr>voiceUpdateFlagRef := False, timers := timers s - 1\<rparr>)"


section \<open>Products page (pages/Products.js) and comparison modal\<close>

record priceRange =
  min' :: jsval
  max' :: jsval

text \<open>
  The component's state; \<open>requests\<close> holds the query parameters of every
  \<open>fetch\<close> of the product list that has been issued and has not settled yet.
\<close>

record 'a page =
  products :: "'a product list"
  total' :: jsval
  loading :: bool
  error :: "string option"
  searchQuery :: jsval
  selectedCategory :: jsval
  selectedBrand :: jsval
  priceRange :: priceRange
  sortBy :: jsval
  selectedProduct :: "'a product option"
  isModalOpen :: bool
  compareList :: "'a product list"
  isCompareOpen :: bool
  requests :: "jsobj list"

definition initialPage :: "'a page" where
  "initialPage =
     \<lparr>products = [], total' = JNum 0, loading = True, error = None, searchQuery = JStr [],
      selectedCategory = JStr [], selectedBrand = JStr [],
      priceRange = \<lparr>min' = JStr [], max' = JStr []\<rparr>, sortBy = JStr ''relevance'',
      selectedProduct = None, isModalOpen = False, compareList = [], isCompareOpen = False,
      requests = []\<rparr>"

text \<open>The callbacks that the page registers with the voice provider.\<close>

definition productsCallback :: "'a product list \<Rightarrow> jsval \<Rightarrow> 'a page \<Rightarrow> 'a page" where
  "productsCallback newProducts newTotal pg =
     pg\<lparr>products := newProducts, total' := newTotal, loading := False\<rparr>"

text \<open>
  The filters callback, one guarded setter per key:
  \<^verbatim>\<open>if (filters.category) setSelectedCategory(filters.category);
  if (filters.brand) setSelectedBrand(filters.brand);
  if (filters.min_price) setPriceRange(prev => ({ ...prev, min: filters.min_price }));
  if (filters.max_price) setPriceRange(prev => ({ ...prev, max: filters.max_price }));
  if (filters.sort_by) setSortBy(filters.sort_by);
  if (filters.query) setSearchQuery(filters.query);\<close>
  The mount effect applies the same six lines to the pending update's filters.
\<close>

definition filtersCallback :: "jsobj \<Rightarrow> 'a page \<Rightarrow> 'a page" where
  "filtersCallback filters pg0 =
     (let pg1 = (if truthy (getProp filters ''category'')
                 then pg0\<lparr>selectedCategory := getProp filters ''category''\<rparr> else pg0);
          pg2 = (if truthy (getProp filters ''brand'')
                 then pg1\<lparr>selectedBrand := getProp filters ''brand''\<rparr> else pg1);
          pg3 = (if truthy (getProp filters ''min_price'')
                 then pg2\<lparr>priceRange := (priceRange pg2)\<lparr>min' := getProp filters ''min_price''\<rparr>\<rparr>
                 else pg2);
          pg4 = (if truthy (getProp filters ''max_price'')
                 then pg3\<lparr>priceRange := (priceRange pg3)\<lparr>max' := getProp filters ''max_price''\<rparr>\<rparr>
                 else pg3);
          pg5 = (if truthy (getProp filters ''sort_by'')
                 then pg4\<lparr>sortBy := getProp filters ''sort_by''\<rparr> else pg4)
      in if truthy (getProp filters ''query'')
         then pg5\<lparr>searchQuery := getProp filters ''query''\<rparr> else pg5)"

definition productDetailCallback :: "'a product \<Rightarrow> 'a page \<Rightarrow> 'a page" where
  "productDetailCallback p pg = pg\<lparr>selectedProduct := Some p, isModalOpen := True\<rparr>"

definition compareCallback :: "'a product list \<Rightarrow> 'a page \<Rightarrow> 'a page" where
  "compareCallback productsToCompare pg =
     pg\<lparr>compareList := productsToCompare, isCompareOpen := True\<rparr>"

text \<open>
  \<open>CompareModal\<close> renders nothing (\<open>None\<close>) under
  \<^verbatim>\<open>if (!isOpen || !products || products.length < 2) return null;\<close>
  and otherwise the comparison of the products it was given.
\<close>

definition CompareModal :: "'a product list \<Rightarrow> bool \<Rightarrow> 'a product list option" where
  "CompareModal ps isOpen = (if \<not> isOpen \<or> length ps < 2 then None else Some ps)"

text \<open>\<open>fetchProducts\<close> up to its \<open>await fetch(...)\<close>, and the query it builds.\<close>

definition appendParam :: "string \<Rightarrow> jsval \<Rightarrow> jsobj \<Rightarrow> jsobj" where
  "appendParam k v params = (if truthy v then params @ [(k, v)] else params)"

definition fetchParams :: "'a page \<Rightarrow> jsobj" where
  "fetchParams pg =
     (let params = appendParam ''max_price'' (max' (priceRange pg))
                    (appendParam ''min_price'' (min' (priceRange pg))
                      (appendParam ''brand'' (selectedBrand pg)
                        (appendParam ''category'' (selectedCategory pg)
                          (appendParam ''query'' (searchQuery pg) []))))
      in if sortBy pg \<noteq> JStr ''relevance'' then params @ [(''sort_by'', sortBy pg)] else params)"

definition fetchProducts :: "'a page \<Rightarrow> 'a page" where
  "fetchProducts pg =
     pg\<lparr>loading := True, error := None, requests := requests pg @ [fetchParams pg]\<rparr>"

text \<open>
  The rest of \<open>fetchProducts\<close> when a request settles: a response with
  \<open>data.success\<close>, a response without it, or an exception from \<open>fetch\<close> or
  \<open>response.json()\<close>; \<open>finally\<close> lowers \<open>loading\<close>.
\<close>

datatype 'a fetchResult =
    Succeeded "'a product list" jsval
  | Unsuccessful
  | Threw

definition fetchSettled :: "'a fetchResult \<Rightarrow> 'a page \<Rightarrow> 'a page" where
  "fetchSettled r pg =
     (case requests pg of
        [] \<Rightarrow> pg
      | params # rest \<Rightarrow>
          (case r of
             Succeeded ps t \<Rightarrow> pg\<lparr>products := ps, total' := t, loading := False, requests := rest\<rparr>
           | Unsuccessful \<Rightarrow>
               pg\<lparr>error := Some ''Failed to fetch products'', loading := False, requests := rest\<rparr>
           | Threw \<Rightarrow>
               pg\<lparr>error := Some ''Failed to connect to server'', loading := False,
                  requests := rest\<rparr>))"

section \<open>UI synchronisation (handleUIUpdate and the page's effects)\<close>

text \<open>
  The provider, the Products page when it is mounted, and the cart provider's items.
  A registered callback closes over the page instance that registered it, so it changes
  nothing when no page is mounted; the cart callback reaches the cart provider, which is
  always mounted.
\<close>

record 'a app =
  vc :: "'a voice"
  pg :: "'a page option"
  cartItems :: "'a item list"

definition initialApp :: "'a app" where
  "initialApp = \<lparr>vc = initialVoice, pg = None, cartItems = []\<rparr>"

datatype action =
    SHOW_PRODUCTS
  | SHOW_PRODUCT_DETAILS
  | COMPARE_PRODUCTS
  | ADD_TO_CART
  | NAVIGATE
  | UnknownAction string

text \<open>
  A \<open>ui_update\<close> event. An optional property is \<open>None\<close> when it is absent or null;
  \<open>data.total\<close> is \<open>JUndefined\<close> when absent.
\<close>

record 'a eventData =
  data_products :: "'a product list option"
  data_product :: "'a product option"
  data_total :: jsval

record 'a uiEvent =
  action :: action
  navigate_to :: "string option"
  data :: "'a eventData option"
  filters :: "jsobj option"

text \<open>\<open>if (navigate_to)\<close>: absent, null and the empty string are falsy.\<close>

definition hasNavigateTo :: "'a uiEvent \<Rightarrow> bool" where
  "hasNavigateTo event = (case navigate_to event of None \<Rightarrow> False | Some path \<Rightarrow> path \<noteq> [])"

text \<open>\<open>data?.products\<close> and \<open>data?.product\<close>.\<close>

definition dataProducts :: "'a uiEvent \<Rightarrow> 'a product list option" where
  "dataProducts event = (case data event of None \<Rightarrow> None | Some d \<Rightarrow> data_products d)"

definition dataProduct :: "'a uiEvent \<Rightarrow> 'a product option" where
  "dataProduct event = (case data event of None \<Rightarrow> None | Some d \<Rightarrow> data_product d)"

definition dataTotal :: "'a uiEvent \<Rightarrow> jsval" where
  "dataTotal event = (case data event of None \<Rightarrow> JUndefined | Some d \<Rightarrow> data_total d)"

text \<open>\<open>filters || {}\<close>.\<close>

definition filtersOrEmpty :: "'a uiEvent \<Rightarrow> jsobj" where
  "filtersOrEmpty event = (case filters event of None \<Rightarrow> [] | Some f \<Rightarrow> f)"

definition navigate :: "'a uiEvent \<Rightarrow> 'a app \<Rightarrow> 'a app" where
  "navigate event a =
     (if hasNavigateTo event
      then a\<lparr>vc := (vc a)\<lparr>navigations := navigations (vc a) @ [the (navigate_to event)]\<rparr>\<rparr>
      else a)"

text \<open>The \<open>SHOW_PRODUCTS\<close> case, entered when \<open>data?.products\<close> is present.\<close>

definition showProducts :: "'a uiEvent \<Rightarrow> 'a product list \<Rightarrow> 'a app \<Rightarrow> 'a app" where
  "showProducts event ps a =
     (let v1 = (vc a)\<lparr>lastProducts := ps, lastFilters := filtersOrEmpty event,
                      voiceUpdateFlagRef := True\<rparr>;
          v2 = (if hasNavigateTo event
                then v1\<lparr>pendingVoiceUpdateRef :=
                          Some \<lparr>pending_products = ps, pending_total = dataTotal event,
                                pending_filters = filtersOrEmpty event\<rparr>\<rparr>
                else v1);
          pg1 = (if onProductsUpdateRef v2
                 then map_option (productsCallback ps (dataTotal event)) (pg a) else pg a);
          pg2 = (case filters event of
                   None \<Rightarrow> pg1
                 | Some f \<Rightarrow> if onFiltersUpdateRef v2 then map_option (filtersCallback f) pg1 else pg1)
      in a\<lparr>vc := v2\<lparr>timers := timers v2 + 1\<rparr>, pg := pg2\<rparr>)"

definition handleUIUpdate :: "'a uiEvent \<Rightarrow> 'a app \<Rightarrow> 'a app" where
  "handleUIUpdate event a0 =
     (let a = navigate event a0 in
      case action event of
        SHOW_PRODUCTS \<Rightarrow>
          (case dataProducts event of None \<Rightarrow> a | Some ps \<Rightarrow> showProducts event ps a)
      | SHOW_PRODUCT_DETAILS \<Rightarrow>
          (case dataProduct event of
             None \<Rightarrow> a
           | Some p \<Rightarrow>
               if onProductDetailRef (vc a)
               then a\<lparr>pg := map_option (productDetailCallback p) (pg a)\<rparr> else a)
      | COMPARE_PRODUCTS \<Rightarrow>
          (case dataProducts event of
             None \<Rightarrow> a
           | Some ps \<Rightarrow>
               if onCompareRef (vc a)
               then a\<lparr>pg := map_option (compareCallback ps) (pg a)\<rparr> else a)
      | ADD_TO_CART \<Rightarrow>
          (case dataProduct event of
             None \<Rightarrow> a
           | Some p \<Rightarrow>
               if onAddToCartRef (vc a) then a\<lparr>cartItems := addToCart p (cartItems a)\<rparr> else a)
      | NAVIGATE \<Rightarrow> a
      | UnknownAction tag \<Rightarrow> a)"

text \<open>The structured events of the channel and \<open>handleWebSocketEvent\<close>.\<close>

datatype 'a wsEvent =
    user_transcript string
  | assistant_transcript string
  | ui_update "'a uiEvent"
  | clear_audio_queue
  | error_event string
  | other_event string

fun handleWebSocketEvent :: "'a wsEvent \<Rightarrow> 'a app \<Rightarrow> 'a app" where
  "handleWebSocketEvent (user_transcript t) a =
     a\<lparr>vc := (vc a)\<lparr>userTranscript := t, isProcessing := True\<rparr>\<rparr>"
| "handleWebSocketEvent (assistant_transcript t) a =
     a\<lparr>vc := (vc a)\<lparr>assistantTranscript := t, isProcessing := False\<rparr>\<rparr>"
| "handleWebSocketEvent (ui_update event) a = handleUIUpdate event a"
| "handleWebSocketEvent clear_audio_queue a = a\<lparr>vc := clearAudioQueue (vc a)\<rparr>"
| "handleWebSocketEvent (error_event e) a = a"
| "handleWebSocketEvent (other_event ty) a = a"

text \<open>
  The page's first effect: it registers the five callbacks, then reads the pending
  update and applies it under \<^verbatim>\<open>if (pendingData && isVoiceUpdateInProgress())\<close>.
\<close>

definition productsVoiceEffect :: "'a app \<Rightarrow> 'a app" where
  "productsVoiceEffect a =
     (let v1 = (vc a)\<lparr>onProductsUpdateRef := True, onFiltersUpdateRef := True,
                      onProductDetailRef := True, onCompareRef := True,
                      onAddToCartRef := True\<rparr>;
          (pendingData, v2) = consumePendingVoiceData v1
      in case pendingData of
           None \<Rightarrow> a\<lparr>vc := v2\<rparr>
         | Some d \<Rightarrow>
             if isVoiceUpdateInProgress v2
             then a\<lparr>vc := v2,
                    pg := map_option
                            (\<lambda>p. filtersCallback (pending_filters d)
                                   (productsCallback (pending_products d) (pending_total d) p))
                            (pg a)\<rparr>
             else a\<lparr>vc := v2\<rparr>)"

text \<open>
  The effect that refreshes the list when the filters change:
  \<^verbatim>\<open>if (isVoiceUpdateInProgress()) { console.log(...); return; }
  fetchProducts();\<close>
\<close>

definition fetchEffect :: "'a app \<Rightarrow> 'a app" where
  "fetchEffect a =
     (if isVoiceUpdateInProgress (vc a) then a else a\<lparr>pg := map_option fetchProducts (pg a)\<rparr>)"

text \<open>Mounting the page: fresh state, then the effects in the order they are declared.\<close>

definition mountProducts :: "'a app \<Rightarrow> 'a app" where
  "mountProducts a = fetchEffect (productsVoiceEffect (a\<lparr>pg := Some initialPage\<rparr>))"

text \<open>What the page shows of the comparison modal.\<close>

definition comparisonView :: "'a app \<Rightarrow> 'a product list option" where
  "comparisonView a =
     (case pg a of None \<Rightarrow> None | Some p \<Rightarrow> CompareModal (compareList p) (isCompareOpen p))"


section \<open>Notions used in the statements about the page\<close>

text \<open>
  \<open>fetchResponse\<close>: a request of the mounted page settles. \<open>filterKeys\<close> and
  \<open>filterValue\<close>: the six filter keys of an event and the piece of the page's filter
  state that each of them is merged into. \<open>provided\<close>: the event carries the key.
  \<open>sampleProduct\<close> and \<open>productsEvent\<close> build the concrete products and events
  of the examples.
\<close>

definition fetchResponse :: "'a fetchResult \<Rightarrow> 'a app \<Rightarrow> 'a app" where
  "fetchResponse r a = a\<lparr>pg := map_option (fetchSettled r) (pg a)\<rparr>"

definition filterKeys :: "string list" where
  "filterKeys = [''category'', ''brand'', ''min_price'', ''max_price'', ''sort_by'', ''query'']"

definition filterValue :: "string \<Rightarrow> 'a page \<Rightarrow> jsval" where
  "filterValue k pst =
     (if k = ''category'' then selectedCategory pst
      else if k = ''brand'' then selectedBrand pst
      else if k = ''min_price'' then min' (priceRange pst)
      else if k = ''max_price'' then max' (priceRange pst)
      else if k = ''sort_by'' then sortBy pst
      else if k = ''query'' then searchQuery pst
      else JUndefined)"

definition provided :: "'a uiEvent \<Rightarrow> string \<Rightarrow> bool" where
  "provided event k = (case filters event of None \<Rightarrow> False | Some f \<Rightarrow> map_of f k \<noteq> None)"

definition sampleProduct :: "nat \<Rightarrow> unit product" where
  "sampleProduct n = \<lparr>id' = JNum (of_nat n), details = ()\<rparr>"

definition productsEvent ::
  "action \<Rightarrow> string option \<Rightarrow> 'a product list \<Rightarrow> jsval \<Rightarrow> jsobj option \<Rightarrow> 'a uiEvent" where
  "productsEvent act nav ps t f =
     \<lparr>action = act, navigate_to = nav,
      data = Some \<lparr>data_products = Some ps, data_product = None, data_total = t\<rparr>,
      filters = f\<rparr>"

section \<open>Invariants of the playback queue\<close>

text \<open>
  The renders in progress: invocations parked at \<open>resume()\<close> and started sources.
  \<open>pbInv\<close>: at most one render is in progress, and the guard is raised while one is.
  \<open>playbackIdle\<close>: nothing queued, in progress or rendered, and the guard lowered.
  \<open>benign\<close>: an event of a run in which no frame fails, no \<open>resume()\<close> is
  rejected and nothing is flushed. \<open>allOk\<close>: there is an audio context and every
  frame waiting is one the render block accepts. \<open>flushed\<close>: nothing waits and the
  speaking flag is lowered. \<open>line\<close>: the frames rendered so far followed by those
  still waiting, in the order in which they are taken.
\<close>

definition active :: "'a voice \<Rightarrow> frame list" where
  "active s = resuming s @ playing s"

definition pbInv :: "'a voice \<Rightarrow> bool" where
  "pbInv s = (length (active s) \<le> 1 \<and> (isPlayingRef s \<or> active s = []))"

definition playbackIdle :: "'a voice \<Rightarrow> bool" where
  "playbackIdle s =
     (playbackQueueRef s = [] \<and> resuming s = [] \<and> playing s = [] \<and> rendered s = [] \<and>
      \<not> isPlayingRef s)"



definition flushed :: "frame list \<Rightarrow> 'a voice \<Rightarrow> bool" where
  "flushed r s =
     (playbackQueueRef s = [] \<and> resuming s = [] \<and> \<not> isSpeaking s \<and> rendered s = r)"



section \<open>Properties of the codec\<close>

text \<open>No wrap-around: the clamped and scaled sample fits the 16-bit element.\<close>

lemma sint_toInt16:
  assumes "- 32768 \<le> truncToZero r" "truncToZero r \<le> 32767"
  shows "sint (toInt16 r) = truncToZero r"
  using assms by (simp add: toInt16_def sint_sbintrunc' signed_take_bit_int_eq_self)

lemma clampSample_range: "- 1 \<le> clampSample x \<and> clampSample x \<le> 1"
  by (simp add: clampSample_def)

lemma clampSample_id: "- 1 \<le> x \<Longrightarrow> x \<le> 1 \<Longrightarrow> clampSample x = x"
  by (simp add: clampSample_def)

lemma truncToZero_neg_bounds:
  assumes "- 1 \<le> s" "s < 0"
  shows "- 32768 \<le> truncToZero (s * 32768)" "truncToZero (s * 32768) \<le> 0"
        "s * 32768 \<le> real_of_int (truncToZero (s * 32768))"
        "real_of_int (truncToZero (s * 32768)) < s * 32768 + 1"
proof -
  have t: "truncToZero (s * 32768) = \<lceil>s * 32768\<rceil>" using assms by (simp add: truncToZero_def)
  have "- 32768 \<le> s * 32768" using assms by simp
  then show "- 32768 \<le> truncToZero (s * 32768)" unfolding t by (simp add: le_ceiling_iff)
  have "s * 32768 \<le> 0" using assms by simp
  then show "truncToZero (s * 32768) \<le> 0" unfolding t by (simp add: ceiling_le_iff)
  show "s * 32768 \<le> real_of_int (truncToZero (s * 32768))" unfolding t by (rule le_of_int_ceiling)
  show "real_of_int (truncToZero (s * 32768)) < s * 32768 + 1" unfolding t by linarith
qed

lemma truncToZero_pos_bounds:
  assumes "0 \<le> s" "s \<le> 1"
  shows "0 \<le> truncToZero (s * 32767)" "truncToZero (s * 32767) \<le> 32767"
        "real_of_int (truncToZero (s * 32767)) \<le> s * 32767"
        "s * 32767 < real_of_int (truncToZero (s * 32767)) + 1"
proof -
  have t: "truncToZero (s * 32767) = \<lfloor>s * 32767\<rfloor>" using assms by (simp add: truncToZero_def)
  have "0 \<le> s * 32767" using assms by simp
  then show "0 \<le> truncToZero (s * 32767)" unfolding t by simp
  have "s * 32767 \<le> 32767" using assms by simp
  then show "truncToZero (s * 32767) \<le> 32767" unfolding t by (simp add: floor_le_iff)
  show "real_of_int (truncToZero (s * 32767)) \<le> s * 32767" unfolding t by (rule of_int_floor_le)
  show "s * 32767 < real_of_int (truncToZero (s * 32767)) + 1" unfolding t by linarith
qed

lemma sint_encodeSample:
  "sint (encodeSample x) =
     (if clampSample x < 0 then truncToZero (clampSample x * 32768) else truncToZero (clampSample x * 32767))"
proof (cases "clampSample x < 0")
  case True
  with clampSample_range [of x] truncToZero_neg_bounds [of "clampSample x"] show ?thesis
    by (simp add: encodeSample_def Let_def sint_toInt16)
next
  case False
  with clampSample_range [of x] truncToZero_pos_bounds [of "clampSample x"] show ?thesis
    by (simp add: encodeSample_def Let_def sint_toInt16)
qed

lemma roundtrip_neg:
  assumes "- 1 \<le> x" "x < 0"
  shows "0 \<le> decodeSample (encodeSample x) - x" "decodeSample (encodeSample x) - x < 1 / 32768"
proof -
  have c: "clampSample x = x" using assms by (simp add: clampSample_id)
  have s: "sint (encodeSample x) = truncToZero (x * 32768)"
    using assms by (simp add: sint_encodeSample c)
  from truncToZero_neg_bounds(3,4) [OF assms]
  show "0 \<le> decodeSample (encodeSample x) - x" "decodeSample (encodeSample x) - x < 1 / 32768"
    by (simp_all add: decodeSample_def s field_simps)
qed

lemma roundtrip_pos:
  assumes "0 \<le> x" "x \<le> 1"
  shows "x / 32768 \<le> x - decodeSample (encodeSample x)" "x - decodeSample (encodeSample x) < (x + 1) / 32768"
proof -
  have c: "clampSample x = x" using assms by (simp add: clampSample_id)
  have s: "sint (encodeSample x) = truncToZero (x * 32767)"
    using assms by (simp add: sint_encodeSample c)
  from truncToZero_pos_bounds(3,4) [OF assms]
  show "x / 32768 \<le> x - decodeSample (encodeSample x)" "x - decodeSample (encodeSample x) < (x + 1) / 32768"
    by (simp_all add: decodeSample_def s field_simps)
qed


text \<open>
  Claim C4, the claim as stated fails: the sample \<open>32769/65536\<close> lies in \<open>[-1,1]\<close>
  (and is a 32-bit float), it is encoded as \<open>16383\<close> and decoded as \<open>16383/32768\<close>,
  which is \<open>3/65536\<close> away from it: one and a half quantization steps of \<open>1/32768\<close>,
  and more than \<open>1/32767\<close> too.
\<close>

theorem codec_roundtrip_one_step_counterexample:
  "- 1 \<le> (32769 / 65536 :: real) \<and> (32769 / 65536 :: real) \<le> 1 \<and>
   encodePCM16 [32769 / 65536] = [16383] \<and>
   decodePCM16 (encodePCM16 [32769 / 65536]) = [16383 / 32768] \<and>
   \<not> \<bar>decodePCM16 (encodePCM16 [32769 / 65536]) ! 0 - [32769 / 65536] ! 0\<bar> \<le> 1 / 32767"
  by (simp add: decodePCM16_def encodePCM16_def decodeSample_def encodeSample_def
      clampSample_def toInt16_def truncToZero_def Let_def)

text \<open>
  Claim C4, amended: for every array of samples in \<open>[-1,1]\<close>, encoding multiplies a
  negative sample by 32768 and a non-negative one by 32767 and drops the fraction, with
  no wrap-around in the 16-bit element; decoding divides the 16-bit value by 32768; and
  decoding the encoded buffer gives an array of the same length in which every sample
  is less than two quantization steps (\<open>2/32768\<close>) away from the original: a
  negative sample is
  reconstructed from above, less than one step away; a non-negative sample \<open>x\<close> is
  reconstructed from below, at least \<open>x/32768\<close> and less than \<open>(x+1)/32768\<close> away.
\<close>

theorem codec_roundtrip_two_steps:
  assumes "\<forall>x\<in>set xs. - 1 \<le> x \<and> x \<le> 1"
  shows "length (decodePCM16 (encodePCM16 xs)) = length xs \<and>
    (\<forall>i<length xs.
       sint (encodePCM16 xs ! i) =
         (if xs ! i < 0 then truncToZero (xs ! i * 32768) else truncToZero (xs ! i * 32767)) \<and>
       decodePCM16 (encodePCM16 xs) ! i = real_of_int (sint (encodePCM16 xs ! i)) / 32768 \<and>
       \<bar>decodePCM16 (encodePCM16 xs) ! i - xs ! i\<bar> < 2 / 32768 \<and>
       (xs ! i < 0 \<longrightarrow>
          0 \<le> decodePCM16 (encodePCM16 xs) ! i - xs ! i \<and>
          decodePCM16 (encodePCM16 xs) ! i - xs ! i < 1 / 32768) \<and>
       (0 \<le> xs ! i \<longrightarrow>
          xs ! i / 32768 \<le> xs ! i - decodePCM16 (encodePCM16 xs) ! i \<and>
          xs ! i - decodePCM16 (encodePCM16 xs) ! i < (xs ! i + 1) / 32768))"
proof (intro conjI allI impI)
  show "length (decodePCM16 (encodePCM16 xs)) = length xs"
    by (simp add: decodePCM16_def encodePCM16_def)
next
  fix i assume i: "i < length xs"
  then have r: "- 1 \<le> xs ! i" "xs ! i \<le> 1" using assms by simp_all
  have e: "decodePCM16 (encodePCM16 xs) ! i = decodeSample (encodeSample (xs ! i))"
    using i by (simp add: decodePCM16_def encodePCM16_def)
  show "sint (encodePCM16 xs ! i) =
      (if xs ! i < 0 then truncToZero (xs ! i * 32768) else truncToZero (xs ! i * 32767))"
    using i r by (simp add: encodePCM16_def sint_encodeSample clampSample_id)
  show "decodePCM16 (encodePCM16 xs) ! i = real_of_int (sint (encodePCM16 xs ! i)) / 32768"
    using i by (simp add: decodePCM16_def encodePCM16_def decodeSample_def)
  show "\<bar>decodePCM16 (encodePCM16 xs) ! i - xs ! i\<bar> < 2 / 32768"
  proof (cases "xs ! i < 0")
    case True
    with roundtrip_neg [of "xs ! i"] r show ?thesis unfolding e by simp
  next
    case False
    with roundtrip_pos [of "xs ! i"] r show ?thesis unfolding e by simp
  qed
  {
    assume "xs ! i < 0"
    with roundtrip_neg [of "xs ! i"] r
    show "0 \<le> decodePCM16 (encodePCM16 xs) ! i - xs ! i"
      and "decodePCM16 (encodePCM16 xs) ! i - xs ! i < 1 / 32768"
      unfolding e by simp_all
  }
  {
    assume "0 \<le> xs ! i"
    with roundtrip_pos [of "xs ! i"] r
    show "xs ! i / 32768 \<le> xs ! i - decodePCM16 (encodePCM16 xs) ! i"
      and "xs ! i - decodePCM16 (encodePCM16 xs) ! i < (xs ! i + 1) / 32768"
      unfolding e by simp_all
  }
qed

theorem codec_roundtrip_two_steps_witness:
  "list_all (\<lambda>x. - 1 \<le> x \<and> x \<le> 1) [1, - 1 / 2, 32769 / 65536 :: real] \<and>
   decodePCM16 (encodePCM16 [1, - 1 / 2, 32769 / 65536]) = [32767 / 32768, - 1 / 2, 16383 / 32768] \<and>
   \<bar>decodePCM16 (encodePCM16 [1, - 1 / 2, 32769 / 65536]) ! 2 - [1, - 1 / 2, 32769 / 65536] ! 2\<bar>
     < 2 / 32768"
proof -
  have h: "\<forall>x\<in>set [1, - 1 / 2, 32769 / 65536 :: real]. - 1 \<le> x \<and> x \<le> 1" by simp
  have d: "decodePCM16 (encodePCM16 [1, - 1 / 2, 32769 / 65536]) =
      [32767 / 32768, - 1 / 2, 16383 / 32768]"
    by (simp add: decodePCM16_def encodePCM16_def decodeSample_def encodeSample_def
        clampSample_def toInt16_def truncToZero_def Let_def)
  from codec_roundtrip_two_steps [OF h, THEN conjunct2, THEN spec, of 2] have
    "\<bar>decodePCM16 (encodePCM16 [1, - 1 / 2, 32769 / 65536]) ! 2 - [1, - 1 / 2, 32769 / 65536] ! 2\<bar>
       < 2 / 32768"
    by simp
  with d show ?thesis by simp
qed

section \<open>Properties of the cart\<close>

lemma addToCart_new:
  "id' p \<notin> id' ` set prev \<Longrightarrow>
     addToCart p prev = prev @ [\<lparr>id' = id' p, details = details p, quantity = 1\<rparr>]"
proof -
  assume "id' p \<notin> id' ` set prev"
  then have "\<forall>x\<in>set prev. id' x \<noteq> id' p" by (metis image_eqI)
  then have "find (\<lambda>item. id' item = id' p) prev = None" by (simp add: find_None_iff)
  then show ?thesis by (simp add: addToCart_def)
qed

lemma addToCart_existing:
  "id' p \<in> id' ` set prev \<Longrightarrow>
     addToCart p prev =
       map (\<lambda>item. if id' item = id' p then item\<lparr>quantity := quantity item + 1\<rparr> else item) prev"
  by (auto simp: addToCart_def find_None_iff split: option.splits)

lemma addToCart_ids:
  "map id' (addToCart p prev) = (if id' p \<in> id' ` set prev then map id' prev else map id' prev @ [id' p])"
  by (auto simp: addToCart_new addToCart_existing)

lemma unique_index:
  assumes "distinct (map id' prev)" "id' p \<in> id' ` set prev"
  shows "\<exists>!i. i < length prev \<and> id' (prev ! i) = id' p"
proof -
  from assms(2) obtain i where i: "i < length prev" "id' (prev ! i) = id' p"
    by (auto simp: in_set_conv_nth)
  show ?thesis
  proof (rule ex1I [of _ i])
    show "i < length prev \<and> id' (prev ! i) = id' p" using i by simp
  next
    fix j assume j: "j < length prev \<and> id' (prev ! j) = id' p"
    then have "map id' prev ! j = map id' prev ! i" using i by simp
    moreover have "j < length (map id' prev)" "i < length (map id' prev)" using i j by simp_all
    ultimately show "j = i" using assms(1) nth_eq_iff_index_eq by blast
  qed
qed


text \<open>
  Claim C10: for every cart whose product ids are unique, \<open>addToCart\<close> keeps them
  unique. If an item with the product's id exists, the length is unchanged, exactly one
  index holds that id, the item there has its quantity raised by exactly one and every
  other item is unchanged; otherwise the result is the old list with one new entry of
  quantity 1 appended.
\<close>

theorem addToCart_unique:
  assumes "distinct (map id' prev)"
  shows "distinct (map id' (addToCart p prev)) \<and>
    (id' p \<in> id' ` set prev \<longrightarrow>
       length (addToCart p prev) = length prev \<and>
       (\<exists>!i. i < length prev \<and> id' (prev ! i) = id' p) \<and>
       (\<forall>i<length prev. addToCart p prev ! i =
          (if id' (prev ! i) = id' p then (prev ! i)\<lparr>quantity := quantity (prev ! i) + 1\<rparr>
           else prev ! i))) \<and>
    (id' p \<notin> id' ` set prev \<longrightarrow>
       addToCart p prev = prev @ [\<lparr>id' = id' p, details = details p, quantity = 1\<rparr>])"
proof (intro conjI impI)
  show "distinct (map id' (addToCart p prev))"
    using assms by (auto simp: addToCart_ids)
next
  assume "id' p \<in> id' ` set prev"
  then show "length (addToCart p prev) = length prev" by (simp add: addToCart_existing)
next
  assume "id' p \<in> id' ` set prev"
  with assms show "\<exists>!i. i < length prev \<and> id' (prev ! i) = id' p" by (rule unique_index)
next
  assume "id' p \<in> id' ` set prev"
  then show "\<forall>i<length prev. addToCart p prev ! i =
          (if id' (prev ! i) = id' p then (prev ! i)\<lparr>quantity := quantity (prev ! i) + 1\<rparr>
           else prev ! i)" by (simp add: addToCart_existing)
next
  assume "id' p \<notin> id' ` set prev"
  then show "addToCart p prev = prev @ [\<lparr>id' = id' p, details = details p, quantity = 1\<rparr>]"
    by (rule addToCart_new)
qed

theorem addToCart_unique_witness:
  "distinct (map id' [\<lparr>id' = JNum 1, details = ''laptop'', quantity = 2\<rparr>,
                      \<lparr>id' = JNum 2, details = ''phone'', quantity = 1\<rparr>]) \<and>
   addToCart \<lparr>id' = JNum 1, details = ''laptop''\<rparr>
     [\<lparr>id' = JNum 1, details = ''laptop'', quantity = 2\<rparr>,
      \<lparr>id' = JNum 2, details = ''phone'', quantity = 1\<rparr>] ! 0
     = \<lparr>id' = JNum 1, details = ''laptop'', quantity = 3\<rparr> \<and>
   addToCart \<lparr>id' = JNum 3, details = ''watch''\<rparr>
     [\<lparr>id' = JNum 1, details = ''laptop'', quantity = 2\<rparr>,
      \<lparr>id' = JNum 2, details = ''phone'', quantity = 1\<rparr>]
     = [\<lparr>id' = JNum 1, details = ''laptop'', quantity = 2\<rparr>,
        \<lparr>id' = JNum 2, details = ''phone'', quantity = 1\<rparr>,
        \<lparr>id' = JNum 3, details = ''watch'', quantity = 1\<rparr>]"
  using addToCart_unique [of "[\<lparr>id' = JNum 1, details = ''laptop'', quantity = 2\<rparr>,
                      \<lparr>id' = JNum 2, details = ''phone'', quantity = 1\<rparr>]" "\<lparr>id' = JNum 1, details = ''laptop''\<rparr>"]
    addToCart_unique [of "[\<lparr>id' = JNum 1, details = ''laptop'', quantity = 2\<rparr>,
                      \<lparr>id' = JNum 2, details = ''phone'', quantity = 1\<rparr>]" "\<lparr>id' = JNum 3, details = ''watch''\<rparr>"]
  by simp



section \<open>Properties of the playback queue\<close>

declare playNextAudio.simps [simp del]




lemma playNextAudio_empty:
  "playbackQueueRef s = [] \<Longrightarrow> playNextAudio ok s = s\<lparr>isSpeaking := False\<rparr>"
  by (simp add: playNextAudio.simps [of ok s])

lemma playNextAudio_pbInv: "pbInv s \<Longrightarrow> pbInv (playNextAudio ok s)"
proof (induction ok s rule: playNextAudio.induct)
  case (1 ok s)
  show ?case
  proof (cases "isPlayingRef s \<or> playbackQueueRef s = []")
    case True
    with "1.prems" show ?thesis
      by (simp add: playNextAudio.simps [of ok s] pbInv_def active_def)
  next
    case False
    then have idle: "resuming s = []" "playing s = []"
      using "1.prems" by (auto simp: pbInv_def active_def)
    show ?thesis
    proof (cases "audioContextRef s = None \<or> audioContextRef s = Some CtxSuspended \<or> ok (hd (playbackQueueRef s))")
      case True
      with False idle show ?thesis
        by (auto simp: playNextAudio.simps [of ok s] pbInv_def active_def)
    next
      case f: False
      have "pbInv (s\<lparr>isPlayingRef := False, playbackQueueRef := tl (playbackQueueRef s)\<rparr>)"
        using idle by (simp add: pbInv_def active_def)
      with "1.IH" False f
      have "pbInv (playNextAudio ok (s\<lparr>isPlayingRef := False, playbackQueueRef := tl (playbackQueueRef s)\<rparr>))"
        by simp
      with False f show ?thesis by (auto simp: playNextAudio.simps [of ok s])
    qed
  qed
qed



lemma pbRun_snoc: "pbRun ok (evs @ [e]) s = pbStep ok (pbRun ok evs s) e"
  by (simp add: pbRun_def)

lemma pbRun_Nil: "pbRun ok [] s = s"
  by (simp add: pbRun_def)


lemma pbStep_pbInv: "pbInv s \<Longrightarrow> pbInv (pbStep ok s e)"
proof (cases e)
  case (Enqueue f)
  assume "pbInv s"
  then have "pbInv (s\<lparr>playbackQueueRef := playbackQueueRef s @ [f], isSpeaking := True\<rparr>)"
    by (simp add: pbInv_def active_def)
  then show ?thesis using Enqueue by (simp add: onmessageBlob_def playNextAudio_pbInv)
next
  case ClearQueue
  assume "pbInv s"
  then show ?thesis using ClearQueue by (simp add: clearAudioQueue_def pbInv_def active_def)
next
  case SourceEnded
  assume inv: "pbInv s"
  show ?thesis
  proof (cases "playing s")
    case Nil
    with inv SourceEnded show ?thesis by (simp add: onended_def)
  next
    case (Cons f rest)
    with inv have "pbInv (s\<lparr>playing := rest, isPlayingRef := False\<rparr>)"
      by (simp add: pbInv_def active_def)
    then show ?thesis using SourceEnded Cons by (simp add: onended_def playNextAudio_pbInv)
  qed
next
  case (ResumeSettled resolved)
  assume inv: "pbInv s"
  show ?thesis
  proof (cases "resuming s")
    case Nil
    with inv ResumeSettled show ?thesis by (simp add: resumeSettled_def)
  next
    case (Cons f rest)
    with inv have r: "rest = []" "playing s = []" "isPlayingRef s"
      by (auto simp: pbInv_def active_def)
    show ?thesis
    proof (cases "resolved \<and> ok f")
      case True
      with Cons r ResumeSettled show ?thesis
        by (simp add: resumeSettled_def pbInv_def active_def)
    next
      case False
      have "pbInv (s\<lparr>resuming := rest,
                 audioContextRef :=
                   (if resolved then map_option (\<lambda>_. CtxRunning) (audioContextRef s)
                    else audioContextRef s),
                 isPlayingRef := False\<rparr>)"
        using r by (simp add: pbInv_def active_def)
      then show ?thesis using False Cons ResumeSettled
        by (auto simp: resumeSettled_def playNextAudio_pbInv)
    qed
  qed
next
  case (ContextState c)
  assume "pbInv s"
  then show ?thesis using ContextState by (simp add: pbInv_def active_def)
qed

lemma playbackIdle_pbInv: "playbackIdle s \<Longrightarrow> pbInv s"
  by (simp add: playbackIdle_def pbInv_def active_def)

lemma pbRun_pbInv: "pbInv s \<Longrightarrow> pbInv (pbRun ok evs s)"
  by (induction evs rule: rev_induct) (simp_all add: pbRun_Nil pbRun_snoc pbStep_pbInv)









lemma pbStep_flushed:
  assumes "flushed r s" "\<not> isEnqueue e"
  shows "flushed r (pbStep ok s e)"
proof (cases e)
  case (Enqueue f)
  with assms show ?thesis by simp
next
  case ClearQueue
  with assms show ?thesis by (simp add: clearAudioQueue_def flushed_def)
next
  case SourceEnded
  with assms show ?thesis
    by (cases "playing s") (simp_all add: onended_def flushed_def playNextAudio_empty)
next
  case (ResumeSettled resolved)
  with assms show ?thesis by (simp add: resumeSettled_def flushed_def)
next
  case (ContextState c)
  with assms show ?thesis by (simp add: flushed_def)
qed

lemma pbRun_flushed:
  "flushed r s \<Longrightarrow> list_all (\<lambda>e. \<not> isEnqueue e) evs \<Longrightarrow> flushed r (pbRun ok evs s)"
  by (induction evs rule: rev_induct) (simp_all add: pbRun_Nil pbRun_snoc pbStep_flushed)





text \<open>
  Claim C5: in a state reached by playback events from an idle state in which a source
  is playing, the \<open>clear_audio_queue\<close> event empties the playback queue and lowers the
  speaking flag; it starts no source and does not stop the one that is playing; and
  after it, along every sequence of playback events without an arrival, no further
  frame is rendered, the queue stays empty and the speaking flag stays lowered.
\<close>

theorem clear_audio_queue_flushes:
  assumes "playbackIdle s0" "vc a = pbRun ok evs s0" "playing (vc a) \<noteq> []"
  shows "playbackQueueRef (vc (handleWebSocketEvent clear_audio_queue a)) = [] \<and>
    \<not> isSpeaking (vc (handleWebSocketEvent clear_audio_queue a)) \<and>
    rendered (vc (handleWebSocketEvent clear_audio_queue a)) = rendered (vc a) \<and>
    playing (vc (handleWebSocketEvent clear_audio_queue a)) = playing (vc a) \<and>
    (list_all (\<lambda>e. \<not> isEnqueue e) evs' \<longrightarrow>
       rendered (pbRun ok evs' (vc (handleWebSocketEvent clear_audio_queue a))) = rendered (vc a) \<and>
       playbackQueueRef (pbRun ok evs' (vc (handleWebSocketEvent clear_audio_queue a))) = [] \<and>
       \<not> isSpeaking (pbRun ok evs' (vc (handleWebSocketEvent clear_audio_queue a))))"
proof -
  have "pbInv (vc a)" using assms(1,2) by (simp add: pbRun_pbInv playbackIdle_pbInv)
  with assms(3) have r: "resuming (vc a) = []"
    by (cases "playing (vc a)"; cases "resuming (vc a)") (simp_all add: pbInv_def active_def)
  have c: "vc (handleWebSocketEvent clear_audio_queue a) = clearAudioQueue (vc a)" by simp
  have f: "flushed (rendered (vc a)) (clearAudioQueue (vc a))"
    using r by (simp add: flushed_def clearAudioQueue_def)
  have "list_all (\<lambda>e. \<not> isEnqueue e) evs' \<Longrightarrow>
     flushed (rendered (vc a)) (pbRun ok evs' (clearAudioQueue (vc a)))"
    using f by (rule pbRun_flushed)
  then show ?thesis unfolding c by (simp add: flushed_def clearAudioQueue_def)
qed


theorem clear_audio_queue_flushes_witness:
  "playbackIdle (idleVoice CtxRunning :: unit voice) \<and>
   playbackQueueRef (pbRun (\<lambda>f. True) [Enqueue [1], Enqueue [2], Enqueue [3], Enqueue [4]]
      (idleVoice CtxRunning :: unit voice)) = [[2], [3], [4]] \<and>
   playing (pbRun (\<lambda>f. True) [Enqueue [1], Enqueue [2], Enqueue [3], Enqueue [4]]
      (idleVoice CtxRunning :: unit voice)) = [[1]] \<and>
   playbackQueueRef (vc (handleWebSocketEvent clear_audio_queue
      (initialApp\<lparr>vc := pbRun (\<lambda>f. True) [Enqueue [1], Enqueue [2], Enqueue [3], Enqueue [4]]
         (idleVoice CtxRunning :: unit voice)\<rparr>))) = [] \<and>
   \<not> isSpeaking (vc (handleWebSocketEvent clear_audio_queue
      (initialApp\<lparr>vc := pbRun (\<lambda>f. True) [Enqueue [1], Enqueue [2], Enqueue [3], Enqueue [4]]
         (idleVoice CtxRunning :: unit voice)\<rparr>))) \<and>
   rendered (pbRun (\<lambda>f. True) [SourceEnded, SourceEnded]
      (vc (handleWebSocketEvent clear_audio_queue
        (initialApp\<lparr>vc := pbRun (\<lambda>f. True) [Enqueue [1], Enqueue [2], Enqueue [3], Enqueue [4]]
           (idleVoice CtxRunning :: unit voice)\<rparr>)))) = [[1]]"
  using clear_audio_queue_flushes
    [of "idleVoice CtxRunning :: unit voice"
        "initialApp\<lparr>vc := pbRun (\<lambda>f. True) [Enqueue [1], Enqueue [2], Enqueue [3], Enqueue [4]]
           (idleVoice CtxRunning :: unit voice)\<rparr>"
        "\<lambda>f. True" "[Enqueue [1], Enqueue [2], Enqueue [3], Enqueue [4]]"
        "[SourceEnded, SourceEnded]"]
  by (simp add: playbackIdle_def idleVoice_def initialVoice_def initialApp_def pbRun_def
      onmessageBlob_def onended_def clearAudioQueue_def playNextAudio.simps)


section \<open>Properties of the channel and the session\<close>

text \<open>
  Claim C9: \<open>onaudioprocess\<close> never raises an error; when the socket is open it
  hands exactly the encoded capture buffer to \<open>send\<close>, and when there is no socket or
  the socket is connecting, closing or closed it leaves the whole state as it was, so
  the frame is neither sent nor kept for later. A frame is sent if and only if the
  socket is open when the buffer is captured.
\<close>

theorem onaudioprocess_sends_iff_open:
  "onaudioprocess inputData s =
     Inr (if wsRef s = Some OPEN then s\<lparr>sent := sent s @ [encodePCM16 inputData]\<rparr> else s)"
  by (simp add: onaudioprocess_def ws_send_def split: option.splits readyState.splits)

theorem onaudioprocess_sends_iff_open_witness:
  "onaudioprocess [1, - 1 / 2] ((initialVoice :: unit voice)\<lparr>wsRef := Some OPEN\<rparr>) =
     Inr ((initialVoice :: unit voice)\<lparr>wsRef := Some OPEN, sent := [[32767, - 16384]]\<rparr>) \<and>
   onaudioprocess [1, - 1 / 2] ((initialVoice :: unit voice)\<lparr>wsRef := Some CONNECTING\<rparr>) =
     Inr ((initialVoice :: unit voice)\<lparr>wsRef := Some CONNECTING\<rparr>) \<and>
   onaudioprocess [1, - 1 / 2] (initialVoice :: unit voice) = Inr initialVoice"
  using onaudioprocess_sends_iff_open [of "[1, - 1 / 2]" "(initialVoice :: unit voice)\<lparr>wsRef := Some OPEN\<rparr>"]
    onaudioprocess_sends_iff_open [of "[1, - 1 / 2]" "(initialVoice :: unit voice)\<lparr>wsRef := Some CONNECTING\<rparr>"]
    onaudioprocess_sends_iff_open [of "[1, - 1 / 2]" "initialVoice :: unit voice"]
  by (simp add: initialVoice_def encodePCM16_def encodeSample_def clampSample_def toInt16_def
      truncToZero_def Let_def)

text \<open>
  Claim C3, evaluated on the code: \<open>toggleVoice\<close> decides on \<open>isConnected\<close>,
  which only \<open>ws.onopen\<close> raises, and \<open>startVoice\<close> has no guard. Two toggles
  before the socket opens therefore start two sessions: two sockets, two microphone
  streams and two playback contexts, the refs keeping only the second of each. A
  direct \<open>startVoice\<close> on a connected session opens a second socket as well.
\<close>

theorem toggleVoice_twice_opens_two_sessions:
  "\<not> isConnected (toggleVoice True CtxRunning (initialVoice :: unit voice)) \<and>
   socketsOpened (toggleVoice True CtxRunning (initialVoice :: unit voice)) = 1 \<and>
   socketsOpened (toggleVoice True CtxRunning (toggleVoice True CtxRunning (initialVoice :: unit voice))) = 2 \<and>
   streamsAcquired (toggleVoice True CtxRunning (toggleVoice True CtxRunning (initialVoice :: unit voice))) = 2 \<and>
   contextsCreated (toggleVoice True CtxRunning (toggleVoice True CtxRunning (initialVoice :: unit voice))) = 2 \<and>
   isConnected (ws_onopen (startVoice True CtxRunning (initialVoice :: unit voice))) \<and>
   socketsOpened (startVoice True CtxRunning (ws_onopen (startVoice True CtxRunning (initialVoice :: unit voice)))) = 2"
  by (simp add: toggleVoice_def startVoice_def initialVoice_def ws_onopen_def startAudioStreaming_def)

section \<open>Properties of UI synchronisation\<close>

lemma getProp_absent: "map_of f k = None \<Longrightarrow> getProp f k = JUndefined"
  by (simp add: getProp_def)

lemma filterValue_filtersCallback:
  "k \<in> set filterKeys \<Longrightarrow>
   filterValue k (filtersCallback f pst) =
     (if truthy (getProp f k) then getProp f k else filterValue k pst)"
  by (auto simp: filterKeys_def filterValue_def filtersCallback_def Let_def)

lemma filtersCallback_frame:
  "products (filtersCallback f pst) = products pst \<and>
   total' (filtersCallback f pst) = total' pst \<and>
   loading (filtersCallback f pst) = loading pst \<and>
   error (filtersCallback f pst) = error pst \<and>
   selectedProduct (filtersCallback f pst) = selectedProduct pst \<and>
   isModalOpen (filtersCallback f pst) = isModalOpen pst \<and>
   compareList (filtersCallback f pst) = compareList pst \<and>
   isCompareOpen (filtersCallback f pst) = isCompareOpen pst \<and>
   requests (filtersCallback f pst) = requests pst"
  by (simp add: filtersCallback_def Let_def)

lemma filterValue_other:
  "k \<notin> set filterKeys \<Longrightarrow> filterValue k pst = JUndefined"
  by (simp add: filterKeys_def filterValue_def)

lemma filterValue_absent:
  "map_of f k = None \<Longrightarrow> filterValue k (filtersCallback f pst) = filterValue k pst"
  by (cases "k \<in> set filterKeys") (simp_all add: filterValue_filtersCallback getProp_absent filterValue_other)

lemma filterValue_productsCallback: "filterValue k (productsCallback ps t pst) = filterValue k pst"
  by (simp add: filterValue_def productsCallback_def)

lemma filterValue_productDetailCallback: "filterValue k (productDetailCallback p pst) = filterValue k pst"
  by (simp add: filterValue_def productDetailCallback_def)

lemma filterValue_compareCallback: "filterValue k (compareCallback ps pst) = filterValue k pst"
  by (simp add: filterValue_def compareCallback_def)

lemma pg_navigate: "pg (navigate event a) = pg a"
  by (simp add: navigate_def)

lemma handleUIUpdate_filter_frame:
  assumes "pg a = Some p" "\<not> provided event k"
  shows "map_option (filterValue k) (pg (handleUIUpdate event a)) = Some (filterValue k p)"
proof (cases "action event")
  case SHOW_PRODUCTS
  show ?thesis
  proof (cases "dataProducts event")
    case None
    with SHOW_PRODUCTS assms show ?thesis by (simp add: handleUIUpdate_def Let_def pg_navigate)
  next
    case (Some ps)
    with SHOW_PRODUCTS assms show ?thesis
      by (auto simp: handleUIUpdate_def showProducts_def pg_navigate Let_def provided_def
          filterValue_productsCallback filterValue_absent split: option.splits)
  qed
next
  case SHOW_PRODUCT_DETAILS
  with assms show ?thesis
    by (auto simp: handleUIUpdate_def Let_def pg_navigate filterValue_productDetailCallback split: option.splits)
next
  case COMPARE_PRODUCTS
  with assms show ?thesis
    by (auto simp: handleUIUpdate_def Let_def pg_navigate filterValue_compareCallback split: option.splits)
next
  case ADD_TO_CART
  with assms show ?thesis
    by (auto simp: handleUIUpdate_def Let_def pg_navigate split: option.splits)
next
  case NAVIGATE
  with assms show ?thesis by (simp add: handleUIUpdate_def Let_def pg_navigate)
next
  case (UnknownAction tag)
  with assms show ?thesis by (simp add: handleUIUpdate_def Let_def pg_navigate)
qed

lemma vc_navigate_refs:
  "onProductsUpdateRef (vc (navigate event a)) = onProductsUpdateRef (vc a)"
  "onFiltersUpdateRef (vc (navigate event a)) = onFiltersUpdateRef (vc a)"
  "onCompareRef (vc (navigate event a)) = onCompareRef (vc a)"
  by (simp_all add: navigate_def)

lemma showProducts_vc:
  "voiceUpdateFlagRef (vc (showProducts event ps a)) \<and>
   pendingVoiceUpdateRef (vc (showProducts event ps a)) =
     (if hasNavigateTo event
      then Some \<lparr>pending_products = ps, pending_total = dataTotal event,
                 pending_filters = filtersOrEmpty event\<rparr>
      else pendingVoiceUpdateRef (vc a))"
  by (simp add: showProducts_def Let_def)

lemma handleUIUpdate_show:
  "action event = SHOW_PRODUCTS \<Longrightarrow> dataProducts event = Some ps \<Longrightarrow>
     handleUIUpdate event a = showProducts event ps (navigate event a)"
  by (simp add: handleUIUpdate_def Let_def)

lemma filterValue_filtersCallback_any:
  "filterValue k (filtersCallback f pst) =
     (if k \<in> set filterKeys \<and> truthy (getProp f k) then getProp f k else filterValue k pst)"
  by (cases "k \<in> set filterKeys")
     (simp_all add: filterValue_filtersCallback filterValue_other)

lemma handleUIUpdate_filter_value:
  assumes "pg a = Some p"
  shows "map_option (filterValue k) (pg (handleUIUpdate event a)) =
     Some (if action event = SHOW_PRODUCTS \<and> dataProducts event \<noteq> None \<and>
              onFiltersUpdateRef (vc a) \<and> k \<in> set filterKeys \<and>
              truthy (getProp (filtersOrEmpty event) k)
           then getProp (filtersOrEmpty event) k else filterValue k p)"
proof (cases "action event")
  case SHOW_PRODUCTS
  show ?thesis
  proof (cases "dataProducts event")
    case None
    with SHOW_PRODUCTS assms show ?thesis by (simp add: handleUIUpdate_def Let_def pg_navigate)
  next
    case (Some ps)
    have n: "pg (navigate event a) = Some p"
      "onFiltersUpdateRef (vc (navigate event a)) = onFiltersUpdateRef (vc a)"
      using assms by (simp_all add: pg_navigate vc_navigate_refs)
    have "map_option (filterValue k) (pg (showProducts event ps (navigate event a))) =
      Some (if onFiltersUpdateRef (vc a) \<and> k \<in> set filterKeys \<and>
               truthy (getProp (filtersOrEmpty event) k)
            then getProp (filtersOrEmpty event) k else filterValue k p)"
    proof (cases "filters event")
      case None
      then have "getProp (filtersOrEmpty event) k = JUndefined"
        by (simp add: filtersOrEmpty_def getProp_def)
      with None n show ?thesis
        by (simp add: showProducts_def Let_def filterValue_productsCallback)
    next
      case (Some f)
      then have "filtersOrEmpty event = f" by (simp add: filtersOrEmpty_def)
      with Some n show ?thesis
        by (simp add: showProducts_def Let_def filterValue_productsCallback
            filterValue_filtersCallback_any)
    qed
    with SHOW_PRODUCTS Some show ?thesis by (simp add: handleUIUpdate_show)
  qed
next
  case SHOW_PRODUCT_DETAILS
  with assms show ?thesis
    by (auto simp: handleUIUpdate_def Let_def pg_navigate filterValue_productDetailCallback
        split: option.splits)
next
  case COMPARE_PRODUCTS
  with assms show ?thesis
    by (auto simp: handleUIUpdate_def Let_def pg_navigate filterValue_compareCallback
        split: option.splits)
next
  case ADD_TO_CART
  with assms show ?thesis
    by (auto simp: handleUIUpdate_def Let_def pg_navigate split: option.splits)
next
  case NAVIGATE
  with assms show ?thesis by (simp add: handleUIUpdate_def Let_def pg_navigate)
next
  case (UnknownAction tag)
  with assms show ?thesis by (simp add: handleUIUpdate_def Let_def pg_navigate)
qed

text \<open>
  Claim C8, the claim as stated fails: a key that is present in the event is not
  merged when its value is falsy. With a minimum price of 100 on the page, an event
  whose filters carry \<open>min_price: 0\<close> leaves the minimum price at 100, both in the
  filters callback and through \<open>handleUIUpdate\<close>; the same event's category, which
  is truthy, is merged.
\<close>

theorem filters_present_key_not_merged_counterexample:
  "map_of [(''category'', JStr ''laptops''), (''min_price'', JNum 0)] ''min_price'' = Some (JNum 0) \<and>
   filterValue ''min_price''
     (filtersCallback [(''category'', JStr ''laptops''), (''min_price'', JNum 0)]
        ((initialPage :: unit page)\<lparr>priceRange := \<lparr>min' = JNum 100, max' = JStr []\<rparr>\<rparr>))
     = JNum 100 \<and>
   provided (productsEvent SHOW_PRODUCTS None [sampleProduct 1] (JNum 1)
      (Some [(''category'', JStr ''laptops''), (''min_price'', JNum 0)])) ''min_price'' \<and>
   map_option (filterValue ''min_price'') (pg (handleUIUpdate
      (productsEvent SHOW_PRODUCTS None [sampleProduct 1] (JNum 1)
         (Some [(''category'', JStr ''laptops''), (''min_price'', JNum 0)]))
      ((mountProducts initialApp)
         \<lparr>pg := Some (initialPage\<lparr>priceRange := \<lparr>min' = JNum 100, max' = JStr []\<rparr>\<rparr>)\<rparr>)))
     = Some (JNum 100) \<and>
   map_option (filterValue ''category'') (pg (handleUIUpdate
      (productsEvent SHOW_PRODUCTS None [sampleProduct 1] (JNum 1)
         (Some [(''category'', JStr ''laptops''), (''min_price'', JNum 0)]))
      ((mountProducts initialApp)
         \<lparr>pg := Some (initialPage\<lparr>priceRange := \<lparr>min' = JNum 100, max' = JStr []\<rparr>\<rparr>)\<rparr>)))
     = Some (JStr ''laptops'')"
  by (simp add: sampleProduct_def productsEvent_def initialApp_def initialVoice_def
      initialPage_def mountProducts_def productsVoiceEffect_def consumePendingVoiceData_def
      fetchEffect_def isVoiceUpdateInProgress_def fetchProducts_def fetchParams_def
      appendParam_def handleUIUpdate_def navigate_def hasNavigateTo_def dataProducts_def
      dataProduct_def dataTotal_def filtersOrEmpty_def showProducts_def productsCallback_def
      filtersCallback_def getProp_def Let_def filterValue_def provided_def)

text \<open>
  Claim C8, amended: a voice-triggered filter update merges into the shared filter
  state each of the six filter keys whose value in the event is truthy, and every other
  filter key (not provided, or provided with a falsy value) keeps its previous value.
  For the filters callback: the state of a filter key becomes the event's value when
  that value is truthy and stays as it was otherwise, and a key the filters do not carry
  keeps its value. For \<open>handleUIUpdate\<close> on a mounted page: the state of a key after the
  event is the event's value exactly when the event is a \<open>SHOW_PRODUCTS\<close> event that
  carries products, the filters callback is registered, the key is one of the six and
  its value in the event is truthy; in every other case, and so for every key the event
  does not provide, it is the previous value. The filters callback changes nothing of
  the page but these six pieces of filter state.
\<close>

theorem filters_partial_merge:
  "(k \<in> set filterKeys \<longrightarrow>
      filterValue k (filtersCallback f pst) =
        (if truthy (getProp f k) then getProp f k else filterValue k pst)) \<and>
   (map_of f k = None \<longrightarrow> filterValue k (filtersCallback f pst) = filterValue k pst) \<and>
   (pg a = Some p \<longrightarrow>
      map_option (filterValue k) (pg (handleUIUpdate event a)) =
        Some (if action event = SHOW_PRODUCTS \<and> dataProducts event \<noteq> None \<and>
                 onFiltersUpdateRef (vc a) \<and> k \<in> set filterKeys \<and>
                 truthy (getProp (filtersOrEmpty event) k)
              then getProp (filtersOrEmpty event) k else filterValue k p)) \<and>
   (pg a = Some p \<and> \<not> provided event k \<longrightarrow>
      map_option (filterValue k) (pg (handleUIUpdate event a)) = Some (filterValue k p)) \<and>
   products (filtersCallback f pst) = products pst \<and>
   total' (filtersCallback f pst) = total' pst \<and>
   loading (filtersCallback f pst) = loading pst \<and>
   error (filtersCallback f pst) = error pst \<and>
   selectedProduct (filtersCallback f pst) = selectedProduct pst \<and>
   isModalOpen (filtersCallback f pst) = isModalOpen pst \<and>
   compareList (filtersCallback f pst) = compareList pst \<and>
   isCompareOpen (filtersCallback f pst) = isCompareOpen pst \<and>
   requests (filtersCallback f pst) = requests pst"
  by (simp add: filterValue_filtersCallback filterValue_absent handleUIUpdate_filter_frame
      handleUIUpdate_filter_value filtersCallback_frame)

theorem filters_partial_merge_witness:
  "filterValue ''category''
     (filtersCallback [(''category'', JStr ''laptops''), (''max_price'', JNum 50000)]
        (initialPage :: unit page)) = JStr ''laptops'' \<and>
   filterValue ''max_price''
     (filtersCallback [(''category'', JStr ''laptops''), (''max_price'', JNum 50000)]
        (initialPage :: unit page)) = JNum 50000 \<and>
   filterValue ''brand''
     (filtersCallback [(''category'', JStr ''laptops''), (''max_price'', JNum 50000)]
        ((initialPage :: unit page)\<lparr>selectedBrand := JStr ''Dell''\<rparr>)) = JStr ''Dell'' \<and>
   map_option (filterValue ''category'') (pg (handleUIUpdate
      (productsEvent SHOW_PRODUCTS None [sampleProduct 1] (JNum 1)
         (Some [(''category'', JStr ''laptops'')]))
      ((mountProducts initialApp)\<lparr>pg := Some (initialPage\<lparr>selectedBrand := JStr ''Dell''\<rparr>)\<rparr>)))
     = Some (JStr ''laptops'') \<and>
   map_option (filterValue ''brand'') (pg (handleUIUpdate
      (productsEvent SHOW_PRODUCTS None [sampleProduct 1] (JNum 1)
         (Some [(''category'', JStr ''laptops'')]))
      ((mountProducts initialApp)\<lparr>pg := Some (initialPage\<lparr>selectedBrand := JStr ''Dell''\<rparr>)\<rparr>)))
     = Some (JStr ''Dell'')"
  using filters_partial_merge
    [of "''category''" "[(''category'', JStr ''laptops''), (''max_price'', JNum 50000)]"
        "initialPage :: unit page"
        "(mountProducts initialApp)\<lparr>pg := Some (initialPage\<lparr>selectedBrand := JStr ''Dell''\<rparr>)\<rparr>"
        "initialPage\<lparr>selectedBrand := JStr ''Dell''\<rparr>"
        "productsEvent SHOW_PRODUCTS None [sampleProduct 1] (JNum 1)
           (Some [(''category'', JStr ''laptops'')])"]
    filters_partial_merge
    [of "''brand''" "[(''category'', JStr ''laptops''), (''max_price'', JNum 50000)]"
        "(initialPage :: unit page)\<lparr>selectedBrand := JStr ''Dell''\<rparr>"
        "(mountProducts initialApp)\<lparr>pg := Some (initialPage\<lparr>selectedBrand := JStr ''Dell''\<rparr>)\<rparr>"
        "initialPage\<lparr>selectedBrand := JStr ''Dell''\<rparr>"
        "productsEvent SHOW_PRODUCTS None [sampleProduct 1] (JNum 1)
           (Some [(''category'', JStr ''laptops'')])"]
  by (simp add: sampleProduct_def productsEvent_def initialApp_def initialVoice_def
      initialPage_def mountProducts_def productsVoiceEffect_def consumePendingVoiceData_def
      fetchEffect_def isVoiceUpdateInProgress_def fetchProducts_def fetchParams_def
      appendParam_def handleUIUpdate_def navigate_def hasNavigateTo_def dataProducts_def
      dataProduct_def dataTotal_def filtersOrEmpty_def showProducts_def productsCallback_def
      filtersCallback_def getProp_def Let_def filterValue_def filterKeys_def provided_def)

lemma showProducts_timers: "timers (vc (showProducts event ps a)) = timers (vc a) + 1"
  by (simp add: showProducts_def Let_def)

text \<open>
  Claim C2: \<open>consumePendingVoiceData\<close> returns the content of the slot and clears
  it in every state of the provider, whether the flag is up or down, so a second read
  returns nothing. After a \<open>SHOW_PRODUCTS\<close> event that carries products and a
  navigation target, the first read returns the event's products, total and filters,
  right after the event as well as after the settle timer has lowered the flag, and a
  second read returns nothing. Mounting the Products page performs that first read:
  right after the event the page shows the stored products and filters, and in both
  cases the slot is empty after the mount and a later read returns nothing.
\<close>

theorem pending_update_consumed_once:
  assumes "action event = SHOW_PRODUCTS" "dataProducts event = Some ps" "hasNavigateTo event"
  shows "fst (consumePendingVoiceData s) = pendingVoiceUpdateRef s \<and>
    snd (consumePendingVoiceData s) = s\<lparr>pendingVoiceUpdateRef := None\<rparr> \<and>
    fst (consumePendingVoiceData (snd (consumePendingVoiceData s))) = None \<and>
    fst (consumePendingVoiceData (vc (handleUIUpdate event a))) =
      Some \<lparr>pending_products = ps, pending_total = dataTotal event,
            pending_filters = filtersOrEmpty event\<rparr> \<and>
    pendingVoiceUpdateRef (snd (consumePendingVoiceData (vc (handleUIUpdate event a)))) = None \<and>
    fst (consumePendingVoiceData (snd (consumePendingVoiceData (vc (handleUIUpdate event a))))) = None \<and>
    pg (mountProducts (handleUIUpdate event a)) =
      Some (filtersCallback (filtersOrEmpty event)
             (productsCallback ps (dataTotal event) initialPage)) \<and>
    pendingVoiceUpdateRef (vc (mountProducts (handleUIUpdate event a))) = None \<and>
    fst (consumePendingVoiceData (vc (mountProducts (handleUIUpdate event a)))) = None \<and>
    \<not> voiceUpdateFlagRef (settleTimeout (vc (handleUIUpdate event a))) \<and>
    fst (consumePendingVoiceData (settleTimeout (vc (handleUIUpdate event a)))) =
      Some \<lparr>pending_products = ps, pending_total = dataTotal event,
            pending_filters = filtersOrEmpty event\<rparr> \<and>
    pendingVoiceUpdateRef
      (snd (consumePendingVoiceData (settleTimeout (vc (handleUIUpdate event a))))) = None \<and>
    fst (consumePendingVoiceData
      (snd (consumePendingVoiceData (settleTimeout (vc (handleUIUpdate event a)))))) = None \<and>
    pendingVoiceUpdateRef (vc (mountProducts
      ((handleUIUpdate event a)\<lparr>vc := settleTimeout (vc (handleUIUpdate event a))\<rparr>))) = None \<and>
    fst (consumePendingVoiceData (vc (mountProducts
      ((handleUIUpdate event a)\<lparr>vc := settleTimeout (vc (handleUIUpdate event a))\<rparr>)))) = None"
proof -
  let ?a1 = "handleUIUpdate event a"
  have a1: "?a1 = showProducts event ps (navigate event a)"
    using assms(1,2) by (rule handleUIUpdate_show)
  have p: "pendingVoiceUpdateRef (vc ?a1) =
      Some \<lparr>pending_products = ps, pending_total = dataTotal event,
            pending_filters = filtersOrEmpty event\<rparr>"
    and f: "voiceUpdateFlagRef (vc ?a1)"
    and t: "timers (vc ?a1) \<noteq> 0"
    unfolding a1 using assms(3) by (simp_all add: showProducts_vc showProducts_timers)
  have gen: "fst (consumePendingVoiceData s) = pendingVoiceUpdateRef s"
    "snd (consumePendingVoiceData s) = s\<lparr>pendingVoiceUpdateRef := None\<rparr>"
    "fst (consumePendingVoiceData (snd (consumePendingVoiceData s))) = None"
    by (simp_all add: consumePendingVoiceData_def)
  have now: "fst (consumePendingVoiceData (vc ?a1)) =
      Some \<lparr>pending_products = ps, pending_total = dataTotal event,
            pending_filters = filtersOrEmpty event\<rparr>"
    "pendingVoiceUpdateRef (snd (consumePendingVoiceData (vc ?a1))) = None"
    "fst (consumePendingVoiceData (snd (consumePendingVoiceData (vc ?a1)))) = None"
    "pg (mountProducts ?a1) =
      Some (filtersCallback (filtersOrEmpty event)
             (productsCallback ps (dataTotal event) initialPage))"
    "pendingVoiceUpdateRef (vc (mountProducts ?a1)) = None"
    "fst (consumePendingVoiceData (vc (mountProducts ?a1))) = None"
    using p f
    by (simp_all add: consumePendingVoiceData_def mountProducts_def productsVoiceEffect_def
        fetchEffect_def isVoiceUpdateInProgress_def Let_def)
  have s: "\<not> voiceUpdateFlagRef (settleTimeout (vc ?a1))"
    "pendingVoiceUpdateRef (settleTimeout (vc ?a1)) =
      Some \<lparr>pending_products = ps, pending_total = dataTotal event,
            pending_filters = filtersOrEmpty event\<rparr>"
    using p t by (simp_all add: settleTimeout_def)
  have later: "fst (consumePendingVoiceData (settleTimeout (vc ?a1))) =
      Some \<lparr>pending_products = ps, pending_total = dataTotal event,
            pending_filters = filtersOrEmpty event\<rparr>"
    "pendingVoiceUpdateRef (snd (consumePendingVoiceData (settleTimeout (vc ?a1)))) = None"
    "fst (consumePendingVoiceData (snd (consumePendingVoiceData (settleTimeout (vc ?a1))))) = None"
    "pendingVoiceUpdateRef (vc (mountProducts (?a1\<lparr>vc := settleTimeout (vc ?a1)\<rparr>))) = None"
    "fst (consumePendingVoiceData (vc (mountProducts (?a1\<lparr>vc := settleTimeout (vc ?a1)\<rparr>)))) = None"
    using s
    by (simp_all add: consumePendingVoiceData_def mountProducts_def productsVoiceEffect_def
        fetchEffect_def isVoiceUpdateInProgress_def Let_def)
  from gen now s(1) later show ?thesis by blast
qed

theorem pending_update_consumed_once_witness:
  "fst (consumePendingVoiceData (vc (handleUIUpdate
      (productsEvent SHOW_PRODUCTS (Some ''/products'') [sampleProduct 1, sampleProduct 2] (JNum 2)
         (Some [(''category'', JStr ''laptops'')]))
      initialApp))) =
     Some \<lparr>pending_products = [sampleProduct 1, sampleProduct 2], pending_total = JNum 2,
           pending_filters = [(''category'', JStr ''laptops'')]\<rparr> \<and>
   fst (consumePendingVoiceData (snd (consumePendingVoiceData (vc (handleUIUpdate
      (productsEvent SHOW_PRODUCTS (Some ''/products'') [sampleProduct 1, sampleProduct 2] (JNum 2)
         (Some [(''category'', JStr ''laptops'')]))
      initialApp))))) = None \<and>
   map_option products (pg (mountProducts (handleUIUpdate
      (productsEvent SHOW_PRODUCTS (Some ''/products'') [sampleProduct 1, sampleProduct 2] (JNum 2)
         (Some [(''category'', JStr ''laptops'')]))
      initialApp))) = Some [sampleProduct 1, sampleProduct 2] \<and>
   map_option selectedCategory (pg (mountProducts (handleUIUpdate
      (productsEvent SHOW_PRODUCTS (Some ''/products'') [sampleProduct 1, sampleProduct 2] (JNum 2)
         (Some [(''category'', JStr ''laptops'')]))
      initialApp))) = Some (JStr ''laptops'') \<and>
   \<not> voiceUpdateFlagRef (settleTimeout (vc (handleUIUpdate
      (productsEvent SHOW_PRODUCTS (Some ''/products'') [sampleProduct 1, sampleProduct 2] (JNum 2)
         (Some [(''category'', JStr ''laptops'')]))
      initialApp))) \<and>
   fst (consumePendingVoiceData (settleTimeout (vc (handleUIUpdate
      (productsEvent SHOW_PRODUCTS (Some ''/products'') [sampleProduct 1, sampleProduct 2] (JNum 2)
         (Some [(''category'', JStr ''laptops'')]))
      initialApp)))) =
     Some \<lparr>pending_products = [sampleProduct 1, sampleProduct 2], pending_total = JNum 2,
           pending_filters = [(''category'', JStr ''laptops'')]\<rparr> \<and>
   fst (consumePendingVoiceData (snd (consumePendingVoiceData (settleTimeout (vc (handleUIUpdate
      (productsEvent SHOW_PRODUCTS (Some ''/products'') [sampleProduct 1, sampleProduct 2] (JNum 2)
         (Some [(''category'', JStr ''laptops'')]))
      initialApp)))))) = None"
  using pending_update_consumed_once
    [of "productsEvent SHOW_PRODUCTS (Some ''/products'') [sampleProduct 1, sampleProduct 2] (JNum 2)
         (Some [(''category'', JStr ''laptops'')])"
        "[sampleProduct 1, sampleProduct 2]" initialVoice initialApp]
  by (simp add: sampleProduct_def productsEvent_def initialApp_def initialVoice_def
      initialPage_def mountProducts_def productsVoiceEffect_def consumePendingVoiceData_def
      fetchEffect_def isVoiceUpdateInProgress_def fetchProducts_def fetchParams_def
      appendParam_def handleUIUpdate_def navigate_def hasNavigateTo_def dataProducts_def
      dataProduct_def dataTotal_def filtersOrEmpty_def showProducts_def productsCallback_def
      filtersCallback_def getProp_def Let_def settleTimeout_def)

text \<open>
  Claim C7, the claim as stated fails: the event is not a no-op. On a mounted page
  with its callbacks registered, a \<open>COMPARE_PRODUCTS\<close> event with one product
  replaces the compare list by that product and raises \<open>isCompareOpen\<close>; and when a
  comparison of two products is on display, the same event takes it off the screen.
\<close>

theorem compare_noop_counterexample:
  "handleUIUpdate (productsEvent COMPARE_PRODUCTS None [sampleProduct 1] JUndefined None)
      (mountProducts initialApp) \<noteq> mountProducts initialApp \<and>
   map_option compareList (pg (mountProducts initialApp)) = Some [] \<and>
   map_option isCompareOpen (pg (mountProducts initialApp)) = Some False \<and>
   map_option compareList (pg (handleUIUpdate
      (productsEvent COMPARE_PRODUCTS None [sampleProduct 1] JUndefined None)
      (mountProducts initialApp))) = Some [sampleProduct 1] \<and>
   map_option isCompareOpen (pg (handleUIUpdate
      (productsEvent COMPARE_PRODUCTS None [sampleProduct 1] JUndefined None)
      (mountProducts initialApp))) = Some True \<and>
   comparisonView (handleUIUpdate
      (productsEvent COMPARE_PRODUCTS None [sampleProduct 1, sampleProduct 2] JUndefined None)
      (mountProducts initialApp)) = Some [sampleProduct 1, sampleProduct 2] \<and>
   comparisonView (handleUIUpdate
      (productsEvent COMPARE_PRODUCTS None [sampleProduct 1] JUndefined None)
      (handleUIUpdate
        (productsEvent COMPARE_PRODUCTS None [sampleProduct 1, sampleProduct 2] JUndefined None)
        (mountProducts initialApp))) = None"
proof -
  have o: "map_option isCompareOpen (pg (mountProducts initialApp :: unit app)) = Some False"
    by (simp add: sampleProduct_def productsEvent_def initialApp_def initialVoice_def
      initialPage_def mountProducts_def productsVoiceEffect_def consumePendingVoiceData_def
      fetchEffect_def isVoiceUpdateInProgress_def fetchProducts_def fetchParams_def
      appendParam_def handleUIUpdate_def navigate_def hasNavigateTo_def dataProducts_def
      dataProduct_def dataTotal_def filtersOrEmpty_def showProducts_def productsCallback_def
      filtersCallback_def getProp_def Let_def compareCallback_def comparisonView_def CompareModal_def)
  have n: "map_option isCompareOpen (pg (handleUIUpdate
      (productsEvent COMPARE_PRODUCTS None [sampleProduct 1] JUndefined None)
      (mountProducts initialApp))) = Some True"
    by (simp add: sampleProduct_def productsEvent_def initialApp_def initialVoice_def
      initialPage_def mountProducts_def productsVoiceEffect_def consumePendingVoiceData_def
      fetchEffect_def isVoiceUpdateInProgress_def fetchProducts_def fetchParams_def
      appendParam_def handleUIUpdate_def navigate_def hasNavigateTo_def dataProducts_def
      dataProduct_def dataTotal_def filtersOrEmpty_def showProducts_def productsCallback_def
      filtersCallback_def getProp_def Let_def compareCallback_def comparisonView_def CompareModal_def)
  from o n have "handleUIUpdate (productsEvent COMPARE_PRODUCTS None [sampleProduct 1] JUndefined None)
      (mountProducts initialApp) \<noteq> mountProducts initialApp"
    by auto
  with o n show ?thesis by (simp add: sampleProduct_def productsEvent_def initialApp_def initialVoice_def
      initialPage_def mountProducts_def productsVoiceEffect_def consumePendingVoiceData_def
      fetchEffect_def isVoiceUpdateInProgress_def fetchProducts_def fetchParams_def
      appendParam_def handleUIUpdate_def navigate_def hasNavigateTo_def dataProducts_def
      dataProduct_def dataTotal_def filtersOrEmpty_def showProducts_def productsCallback_def
      filtersCallback_def getProp_def Let_def compareCallback_def comparisonView_def CompareModal_def)
qed

text \<open>
  Claim C7, amended: a \<open>COMPARE_PRODUCTS\<close> event whose \<open>data.products\<close> has
  fewer than two entries opens no comparison view: with the compare callback
  registered the modal renders nothing afterwards, and in any case the modal renders
  nothing afterwards if it rendered nothing before. The event still hands its products
  to the compare callback, which replaces the compare list and raises
  \<open>isCompareOpen\<close>.
\<close>

theorem compare_fewer_than_two:
  assumes "action event = COMPARE_PRODUCTS" "dataProducts event = Some ps" "length ps < 2"
  shows "pg (handleUIUpdate event a) =
      (if onCompareRef (vc a) then map_option (compareCallback ps) (pg a) else pg a) \<and>
    (onCompareRef (vc a) \<longrightarrow> comparisonView (handleUIUpdate event a) = None) \<and>
    (comparisonView a = None \<longrightarrow> comparisonView (handleUIUpdate event a) = None)"
  using assms
  by (cases "pg a")
     (auto simp: handleUIUpdate_def Let_def pg_navigate vc_navigate_refs comparisonView_def
       CompareModal_def compareCallback_def)

theorem compare_fewer_than_two_witness:
  "comparisonView (handleUIUpdate
      (productsEvent COMPARE_PRODUCTS None [sampleProduct 1] JUndefined None)
      (mountProducts initialApp)) = None \<and>
   comparisonView (handleUIUpdate
      (productsEvent COMPARE_PRODUCTS None [sampleProduct 1] JUndefined None)
      (handleUIUpdate
        (productsEvent COMPARE_PRODUCTS None [sampleProduct 1, sampleProduct 2] JUndefined None)
        (mountProducts initialApp))) = None"
  using compare_fewer_than_two
    [of "productsEvent COMPARE_PRODUCTS None [sampleProduct 1] JUndefined None" "[sampleProduct 1]"
        "mountProducts initialApp"]
    compare_fewer_than_two
    [of "productsEvent COMPARE_PRODUCTS None [sampleProduct 1] JUndefined None" "[sampleProduct 1]"
        "handleUIUpdate
           (productsEvent COMPARE_PRODUCTS None [sampleProduct 1, sampleProduct 2] JUndefined None)
           (mountProducts initialApp)"]
  by (simp add: sampleProduct_def productsEvent_def initialApp_def initialVoice_def
      initialPage_def mountProducts_def productsVoiceEffect_def consumePendingVoiceData_def
      fetchEffect_def isVoiceUpdateInProgress_def fetchProducts_def fetchParams_def
      appendParam_def handleUIUpdate_def navigate_def hasNavigateTo_def dataProducts_def
      dataProduct_def dataTotal_def filtersOrEmpty_def showProducts_def productsCallback_def
      filtersCallback_def getProp_def Let_def compareCallback_def comparisonView_def CompareModal_def)

text \<open>
  Claim C1, evaluated on the code: the page mounts and its refresh effect issues a
  request while the flag is down. A \<open>SHOW_PRODUCTS\<close> event with two products then
  raises the flag and the page shows them; a refresh triggered now is skipped. The
  response to the earlier request arrives next: the flag is still up, and the page's
  list and total are those of the response, not those of the voice update.
\<close>

theorem refresh_response_overwrites_voice_update:
  "\<not> voiceUpdateFlagRef (vc (mountProducts initialApp)) \<and>
   map_option requests (pg (mountProducts initialApp)) = Some [[]] \<and>
   voiceUpdateFlagRef (vc (handleUIUpdate
      (productsEvent SHOW_PRODUCTS None [sampleProduct 1, sampleProduct 2] (JNum 2) None)
      (mountProducts initialApp))) \<and>
   map_option products (pg (handleUIUpdate
      (productsEvent SHOW_PRODUCTS None [sampleProduct 1, sampleProduct 2] (JNum 2) None)
      (mountProducts initialApp))) = Some [sampleProduct 1, sampleProduct 2] \<and>
   map_option total' (pg (handleUIUpdate
      (productsEvent SHOW_PRODUCTS None [sampleProduct 1, sampleProduct 2] (JNum 2) None)
      (mountProducts initialApp))) = Some (JNum 2) \<and>
   fetchEffect (handleUIUpdate
      (productsEvent SHOW_PRODUCTS None [sampleProduct 1, sampleProduct 2] (JNum 2) None)
      (mountProducts initialApp)) =
     handleUIUpdate
      (productsEvent SHOW_PRODUCTS None [sampleProduct 1, sampleProduct 2] (JNum 2) None)
      (mountProducts initialApp) \<and>
   voiceUpdateFlagRef (vc (fetchResponse (Succeeded [sampleProduct 3] (JNum 1)) (handleUIUpdate
      (productsEvent SHOW_PRODUCTS None [sampleProduct 1, sampleProduct 2] (JNum 2) None)
      (mountProducts initialApp)))) \<and>
   map_option products (pg (fetchResponse (Succeeded [sampleProduct 3] (JNum 1)) (handleUIUpdate
      (productsEvent SHOW_PRODUCTS None [sampleProduct 1, sampleProduct 2] (JNum 2) None)
      (mountProducts initialApp)))) = Some [sampleProduct 3] \<and>
   map_option total' (pg (fetchResponse (Succeeded [sampleProduct 3] (JNum 1)) (handleUIUpdate
      (productsEvent SHOW_PRODUCTS None [sampleProduct 1, sampleProduct 2] (JNum 2) None)
      (mountProducts initialApp)))) = Some (JNum 1)"
  by (simp add: sampleProduct_def productsEvent_def initialApp_def initialVoice_def
      initialPage_def mountProducts_def productsVoiceEffect_def consumePendingVoiceData_def
      fetchEffect_def isVoiceUpdateInProgress_def fetchProducts_def fetchParams_def
      appendParam_def handleUIUpdate_def navigate_def hasNavigateTo_def dataProducts_def
      dataProduct_def dataTotal_def filtersOrEmpty_def showProducts_def productsCallback_def
      filtersCallback_def getProp_def Let_def fetchResponse_def fetchSettled_def)

end
